theory Spec2Isabelle
  imports Main
begin

section \<open>Data model of \<open>src/index.js\<close>\<close>

text \<open>
  A cursor is an opaque string issued by the Gateway; JavaScript's \<open>null\<close> and
  \<open>undefined\<close> are both \<open>None\<close>: \<open>requestOrganizationData\<close> defaults an undefined
  cursor to \<open>null\<close> before the request, and a cursor is never written to the export.
  An organization login is a string, or \<open>undefined\<close> (\<open>None\<close>) when no input gave one.
\<close>

type_synonym cursor = "string option"
type_synonym login = "string option"

record page_info =
  hasNextPage :: bool
  endCursor :: cursor

text \<open>\<open>edge.node\<close>: the collaborator; its \<open>name\<close> may be \<open>null\<close>.\<close>

record user =
  user_name :: "string option"
  user_login :: string

record edge =
  node :: user
  permission :: string

record collaborators_page =
  edges :: "edge list"
  pageInfo :: page_info

text \<open>
  A repository node of a response, which is also the entry of the accumulated sequence;
  \<open>previousCursor\<close> is the property \<open>collectData\<close> adds to it.
\<close>

record repository =
  name :: string
  collaborators :: collaborators_page
  previousCursor :: cursor

record repositories_page =
  nodes :: "repository list"
  repositoriesPageInfo :: page_info

record organization =
  repositories :: repositories_page

text \<open>
  A rejected request carries \<open>error.message\<close> and, in \<open>error.data.organization.repositories\<close>,
  the partial page: the names of its nodes and its page info.
\<close>

record partial_data =
  failed_nodes :: "string list"
  failed_pageInfo :: page_info

record gql_error =
  message :: string
  error_data :: partial_data

datatype 'a response = Resolved 'a | Rejected gql_error

text \<open>
  The Gateway (\<open>this.graphqlClient(organizationQuery, {organization, collaboratorsCursor,
  repositoriesCursor})\<close>), in the argument order of \<open>requestOrganizationData\<close>.
\<close>

type_synonym gateway = "login \<Rightarrow> cursor \<Rightarrow> cursor \<Rightarrow> organization option response"

datatype js_error = TypeError | GatewayError gql_error | IOError

text \<open>
  How an asynchronous method ends, in a given state: it returns, it throws, or it ends
  the process with \<open>process.exit()\<close>.
\<close>

datatype 's completion = Returned 's | Threw js_error 's | Exited 's

text \<open>A cell of a normalized record: \<open>undefined\<close>, \<open>null\<close> or a string.\<close>

datatype jsval = JUndefined | JNull | JString string

record options_rec =
  repository_opt :: "string option"
  postToIssue :: "string option"
  data_opt :: "(string \<times> organization option) list option"

record collector =
  organizations :: "login list"
  enterprise :: "string option"
  options :: options_rec
  result :: "(string \<times> organization option) list"
  normalizedData :: "jsval list list"

section \<open>The \<open>result\<close> object\<close>

text \<open>
  \<open>this.result\<close> is a plain object used as a dictionary. The model keeps its properties
  in creation order; assigning to an existing key keeps the key's place. An undefined
  login is coerced to the key \<open>undefined\<close>. Every key is taken as an own property: the
  one key for which a JavaScript object behaves otherwise, \<open>__proto__\<close>, is not a login
  (a login holds letters, digits and hyphens).
\<close>

definition key_of :: "login \<Rightarrow> string" where
  "key_of l = (case l of None \<Rightarrow> ''undefined'' | Some s \<Rightarrow> s)"

fun obj_set :: "(string \<times> 'v) list \<Rightarrow> string \<Rightarrow> 'v \<Rightarrow> (string \<times> 'v) list" where
  "obj_set [] k v = [(k, v)]"
| "obj_set ((k', v') # kvs) k v =
     (if k' = k then (k, v) # kvs else (k', v') # obj_set kvs k v)"

definition obj_get :: "(string \<times> 'v) list \<Rightarrow> string \<Rightarrow> 'v option" where
  "obj_get kvs k = map_of kvs k"

text \<open>
  \<open>Object.keys\<close>: the keys that are array indices (canonical decimal numerals below
  \<open>2^32 - 1\<close>) come first, in ascending numeric order; the other keys follow in creation
  order.
\<close>

definition is_digit :: "char \<Rightarrow> bool" where
  "is_digit ch = (48 \<le> (of_char ch :: nat) \<and> (of_char ch :: nat) \<le> 57)"

definition num_val :: "string \<Rightarrow> nat" where
  "num_val s = foldl (\<lambda>a ch. 10 * a + ((of_char ch :: nat) - 48)) 0 s"

definition is_array_index :: "string \<Rightarrow> bool" where
  "is_array_index s =
     (s \<noteq> [] \<and> list_all is_digit s \<and> (s = ''0'' \<or> hd s \<noteq> CHR ''0'') \<and> num_val s < 4294967295)"

definition obj_keys :: "(string \<times> 'v) list \<Rightarrow> string list" where
  "obj_keys kvs =
     sort_key num_val (filter is_array_index (map fst kvs)) @
     filter (\<lambda>k. \<not> is_array_index k) (map fst kvs)"

section \<open>The pagination and merge engine\<close>

definition ERROR_MESSAGE_ARCHIVED_REPO :: string where
  "ERROR_MESSAGE_ARCHIVED_REPO = ''Must have push access to view repository collaborators.''"

text \<open>
  \<open>requestOrganizationData\<close> (lines 116-134). The retry is a recursive call, so the
  function takes fuel: \<open>None\<close> means that it has not returned within \<open>fuel\<close> requests.
  The log line of the retry reads \<open>nodes[0].name\<close> of the partial data, which throws a
  TypeError inside the handler when the partial page has no node.
\<close>

fun requestOrganizationData ::
  "gateway \<Rightarrow> nat \<Rightarrow> login \<Rightarrow> cursor \<Rightarrow> cursor \<Rightarrow> (js_error + organization option) option" where
  "requestOrganizationData gw 0 organization collaboratorsCursor repositoriesCursor = None"
| "requestOrganizationData gw (Suc fuel) organization collaboratorsCursor repositoriesCursor =
     (case gw organization collaboratorsCursor repositoriesCursor of
        Resolved d \<Rightarrow> Some (Inr d)
      | Rejected error \<Rightarrow>
          if message error = ERROR_MESSAGE_ARCHIVED_REPO then
            (case failed_nodes (error_data error) of
               [] \<Rightarrow> Some (Inl TypeError)
             | _ # _ \<Rightarrow>
                 requestOrganizationData gw fuel organization None
                   (endCursor (failed_pageInfo (error_data error))))
          else Some (Inr None))"

definition set_nodes :: "organization \<Rightarrow> repository list \<Rightarrow> organization" where
  "set_nodes r ns = r\<lparr>repositories := (repositories r)\<lparr>nodes := ns\<rparr>\<rparr>"

definition set_edges :: "repository \<Rightarrow> edge list \<Rightarrow> repository" where
  "set_edges r es = r\<lparr>collaborators := (collaborators r)\<lparr>edges := es\<rparr>\<rparr>"

text \<open>
  The merge of a page (lines 205-227). \<open>stored\<close> is \<open>this.result[organization]\<close> when it
  is truthy; otherwise the local \<open>result\<close> (here \<open>res\<close>) is the response \<open>data\<close> itself,
  so that the last entry of \<open>result\<close> is an entry of the page just received. The function
  returns \<open>repositoriesInResult\<close>, the length before the merge, with the merged \<open>result\<close>.
  Reading \<open>.name\<close> of a last entry that does not exist throws a TypeError.

  The model is by value. On the first call \<open>lastRepositoryInResult.collaborators\<close> and
  \<open>collaboratorsPage\<close> are one object; the spread on the right of the assignment is
  evaluated before the assignment, and afterwards only \<open>pageInfo\<close> is read from the page,
  which the assignment does not touch. The entries of the sequence are distinct objects as
  long as a page carries at most one repository (the query asks for one repository per
  page), and then the values are all that the methods can tell.
\<close>

definition mergePage ::
  "organization option \<Rightarrow> organization \<Rightarrow> repository \<Rightarrow> cursor \<Rightarrow> js_error + nat \<times> organization" where
  "mergePage stored data currentRepository repositoriesCursor =
     (let collaboratorsPage = collaborators currentRepository;
          res = (case stored of Some r \<Rightarrow> r | None \<Rightarrow> data);
          repositoriesInResult = length (nodes (repositories res))
      in if repositoriesInResult = 0 then Inl TypeError
         else
           let lastRepositoryInResult = nodes (repositories res) ! (repositoriesInResult - 1)
           in if name currentRepository = name lastRepositoryInResult then
                Inr (repositoriesInResult,
                  set_nodes res ((nodes (repositories res))
                    [repositoriesInResult - 1 :=
                       set_edges lastRepositoryInResult
                         (edges (collaborators lastRepositoryInResult) @ edges collaboratorsPage)]))
              else
                Inr (repositoriesInResult,
                  set_nodes res ((nodes (repositories res))
                    [repositoriesInResult - 1 :=
                       lastRepositoryInResult\<lparr>previousCursor := repositoriesCursor\<rparr>]
                    @ [currentRepository])))"

text \<open>
  The cursors of the next call (lines 229-251): \<open>Some (collaboratorsCursor,
  repositoriesCursor)\<close>, or \<open>None\<close> when the traversal is complete. The condition
  \<open>(collaboratorsPage.pageInfo.hasNextPage, repositoriesInResult === 1)\<close> is a comma
  expression: its value is the second operand.
\<close>

definition nextCall ::
  "organization \<Rightarrow> nat \<Rightarrow> page_info \<Rightarrow> page_info \<Rightarrow> js_error + (cursor \<times> cursor) option" where
  "nextCall res repositoriesInResult collaboratorsInfo repositoriesInfo =
     (if hasNextPage collaboratorsInfo then
        (if repositoriesInResult = 1 then Inr (Some (endCursor collaboratorsInfo, None))
         else if 2 \<le> repositoriesInResult
                 \<and> repositoriesInResult - 2 < length (nodes (repositories res)) then
           Inr (Some (endCursor collaboratorsInfo,
             previousCursor (nodes (repositories res) ! (repositoriesInResult - 2))))
         else Inl TypeError)
      else if hasNextPage repositoriesInfo then
        Inr (Some (None, endCursor repositoriesInfo))
      else Inr None)"

definition stored_result :: "collector \<Rightarrow> login \<Rightarrow> organization option" where
  "stored_result c organization =
     (case obj_get (result c) (key_of organization) of Some (Some r) \<Rightarrow> Some r | _ \<Rightarrow> None)"

text \<open>
  \<open>collectData\<close> (lines 198-254) calls itself once per page, so it takes fuel as well:
  \<open>None\<close> means that the traversal has not returned within \<open>fuel\<close> calls (more fuel never
  changes a result, see \<open>collectData_mono\<close>). The value it returns is ignored by its only
  caller; the model returns the collector.
\<close>

fun collectData ::
  "gateway \<Rightarrow> nat \<Rightarrow> collector \<Rightarrow> login \<Rightarrow> cursor \<Rightarrow> cursor \<Rightarrow> collector completion option" where
  "collectData gw 0 c organization collaboratorsCursor repositoriesCursor = None"
| "collectData gw (Suc fuel) c organization collaboratorsCursor repositoriesCursor =
     (case requestOrganizationData gw (Suc fuel) organization collaboratorsCursor repositoriesCursor of
        None \<Rightarrow> None
      | Some (Inl e) \<Rightarrow> Some (Threw e c)
      | Some (Inr None) \<Rightarrow> Some (Returned c)
      | Some (Inr (Some data)) \<Rightarrow>
          (case nodes (repositories data) of
             [] \<Rightarrow> Some (Returned c)
           | currentRepository # _ \<Rightarrow>
               (case mergePage (stored_result c organization) data currentRepository repositoriesCursor of
                  Inl e \<Rightarrow> Some (Threw e c)
                | Inr (repositoriesInResult, result') \<Rightarrow>
                    (let c' = c\<lparr>result := obj_set (result c) (key_of organization) (Some result')\<rparr>
                     in case nextCall result' repositoriesInResult
                               (pageInfo (collaborators currentRepository))
                               (repositoriesPageInfo (repositories data)) of
                          Inl e \<Rightarrow> Some (Threw e c')
                        | Inr (Some (cc, rc)) \<Rightarrow> collectData gw fuel c' organization cc rc
                        | Inr None \<Rightarrow> Some (Returned c')))))"

section \<open>The normalizer\<close>

definition forEach :: "'a list \<Rightarrow> ('a \<Rightarrow> 's \<Rightarrow> 's) \<Rightarrow> 's \<Rightarrow> 's" where
  "forEach xs f s = foldl (\<lambda>s x. f x s) s xs"

text \<open>The record of six cells that lines 185-192 push.\<close>

definition flat_record :: "string option \<Rightarrow> string \<Rightarrow> repository \<Rightarrow> edge \<Rightarrow> jsval list" where
  "flat_record ent organization repository collaborator =
     [case ent of None \<Rightarrow> JUndefined | Some e \<Rightarrow> JString e,
      JString organization,
      JString (name repository),
      case user_name (node collaborator) of None \<Rightarrow> JNull | Some n \<Rightarrow> JString n,
      JString (user_login (node collaborator)),
      JString (permission collaborator)]"

definition push_record :: "string \<Rightarrow> repository \<Rightarrow> edge \<Rightarrow> collector \<Rightarrow> collector" where
  "push_record organization repository collaborator c =
     c\<lparr>normalizedData := normalizedData c @
       [flat_record (enterprise c) organization repository collaborator]\<rparr>"

text \<open>
  \<open>normalizeResult\<close> (lines 173-196); \<open>normalize_organization\<close> is the function it
  applies to every key (lines 175-195). The guards \<open>!this.result[organization].repositories\<close>
  and \<open>!repository.collaborators.edges\<close> never hold for the values of this data model (an
  object and an array are truthy); the guard \<open>!this.result[organization]\<close> is the
  \<open>null\<close> accumulator.
\<close>

definition normalize_organization :: "string \<Rightarrow> collector \<Rightarrow> collector" where
  "normalize_organization organization c =
     (case obj_get (result c) organization of
        Some (Some org) \<Rightarrow>
          forEach (nodes (repositories org))
            (\<lambda>repository. forEach (edges (collaborators repository))
               (push_record organization repository)) c
      | _ \<Rightarrow> c)"

definition normalizeResult :: "collector \<Rightarrow> collector" where
  "normalizeResult c = forEach (obj_keys (result c)) normalize_organization c"

section \<open>The exporters\<close>

definition to_string :: "jsval \<Rightarrow> string" where
  "to_string v = (case v of JUndefined \<Rightarrow> ''undefined'' | JNull \<Rightarrow> ''null'' | JString s \<Rightarrow> s)"

definition csv_keys :: "string list" where
  "csv_keys = [''enterprise'', ''organization'', ''repo'', ''user'', ''login'', ''permission'']"

fun join :: "string \<Rightarrow> string list \<Rightarrow> string" where
  "join sep [] = []"
| "join sep [x] = x"
| "join sep (x # y # ys) = x @ sep @ join sep (y # ys)"

text \<open>\<open>record[i]\<close>: \<open>undefined\<close> beyond the end of the array.\<close>

definition cell :: "jsval list \<Rightarrow> nat \<Rightarrow> jsval" where
  "cell r i = (if i < length r then r ! i else JUndefined)"

text \<open>\<open>JSONtoCSV\<close> (lines 20-33); \<open>eol\<close> is \<open>os.EOL\<close>.\<close>

definition csv_record :: "jsval list \<Rightarrow> string \<Rightarrow> string" where
  "csv_record r csv0 =
     forEach [0 ..< length csv_keys]
       (\<lambda>i csv. (let csv1 = csv @ to_string (cell r i)
                  in if i \<noteq> length csv_keys - 1 then csv1 @ '','' else csv1)) csv0"

definition JSONtoCSV :: "string \<Rightarrow> jsval list list \<Rightarrow> string" where
  "JSONtoCSV eol json =
     forEach json (\<lambda>r csv. csv_record r csv @ eol) (join '','' csv_keys @ eol)"

text \<open>
  \<open>JSON.stringify\<close> of a string: the text between double quotes, with the double quote,
  the backslash and the control characters escaped.
\<close>

definition hex_digit :: "nat \<Rightarrow> char" where
  "hex_digit d = (if d < 10 then char_of (48 + d) else char_of (87 + d))"

definition json_escape :: "char \<Rightarrow> string" where
  "json_escape ch =
     (if ch = CHR 0x22 then [CHR 0x5C, CHR 0x22]
      else if ch = CHR 0x5C then [CHR 0x5C, CHR 0x5C]
      else if ch = CHR 0x08 then [CHR 0x5C, CHR ''b'']
      else if ch = CHR 0x0C then [CHR 0x5C, CHR ''f'']
      else if ch = CHR 0x0A then [CHR 0x5C, CHR ''n'']
      else if ch = CHR 0x0D then [CHR 0x5C, CHR ''r'']
      else if ch = CHR 0x09 then [CHR 0x5C, CHR ''t'']
      else if (of_char ch :: nat) < 32 then
        [CHR 0x5C, CHR ''u'', CHR ''0'', CHR ''0'',
         hex_digit ((of_char ch :: nat) div 16), hex_digit ((of_char ch :: nat) mod 16)]
      else [ch])"

definition stringify_string :: "string \<Rightarrow> string" where
  "stringify_string s = [CHR 0x22] @ concat (map json_escape s) @ [CHR 0x22]"

text \<open>\<open>JSON.stringify\<close> of the record set, an array of arrays; \<open>undefined\<close> becomes \<open>null\<close>.\<close>

definition stringify_cell :: "jsval \<Rightarrow> string" where
  "stringify_cell v = (case v of JString s \<Rightarrow> stringify_string s | _ \<Rightarrow> ''null'')"

definition stringify_records :: "jsval list list \<Rightarrow> string" where
  "stringify_records json =
     ''['' @ join '','' (map (\<lambda>r. ''['' @ join '','' (map stringify_cell r) @ '']'') json) @ '']''"

text \<open>
  What the world does to one invocation of \<open>endCollection\<close>: whether each of its external
  steps completes (\<open>True\<close>) or throws.
\<close>

record exporter =
  json_write_ok :: bool
  csv_write_ok :: bool
  upload_ok :: bool
  post_ok :: bool

text \<open>The files written, in order: path and content.\<close>

type_synonym files = "(string \<times> string) list"

definition DATA_FOLDER :: string where
  "DATA_FOLDER = ''./data''"

definition ARTIFACT_FILE_NAME :: string where
  "ARTIFACT_FILE_NAME = ''raw-data''"

text \<open>\<open>endCollection\<close> (lines 160-171).\<close>

definition endCollection ::
  "exporter \<Rightarrow> string \<Rightarrow> collector \<times> files \<Rightarrow> (collector \<times> files) completion" where
  "endCollection ex eol s =
     (let c1 = normalizeResult (fst s);
          json = normalizedData c1;
          csv = JSONtoCSV eol json
      in if \<not> json_write_ok ex then Threw IOError (c1, snd s)
         else
           let fs1 = snd s @ [(DATA_FOLDER @ ''/'' @ ARTIFACT_FILE_NAME @ ''.json'', stringify_records json)]
           in if \<not> csv_write_ok ex then Threw IOError (c1, fs1)
              else
                let fs2 = fs1 @ [(DATA_FOLDER @ ''/'' @ ARTIFACT_FILE_NAME @ ''.csv'', stringify_string csv)]
                in if \<not> upload_ok ex then Threw IOError (c1, fs2)
                   else if \<not> post_ok ex then Threw IOError (c1, fs2)
                   else Exited (c1, fs2))"

section \<open>The run\<close>

text \<open>JavaScript truthiness of a value that is \<open>undefined\<close> or a string.\<close>

definition truthy :: "string option \<Rightarrow> bool" where
  "truthy v = (case v of None \<Rightarrow> False | Some s \<Rightarrow> s \<noteq> [])"

text \<open>The loop of \<open>startCollection\<close> (lines 143-151) over \<open>this.organizations\<close>.\<close>

fun collectAll :: "gateway \<Rightarrow> nat \<Rightarrow> collector \<Rightarrow> login list \<Rightarrow> collector completion option" where
  "collectAll gw fuel c [] = Some (Returned c)"
| "collectAll gw fuel c (l # ls) =
     (case collectData gw fuel (c\<lparr>result := obj_set (result c) (key_of l) None\<rparr>) l None None of
        None \<Rightarrow> None
      | Some (Returned c') \<Rightarrow> collectAll gw fuel c' ls
      | Some (Threw e c') \<Rightarrow> Some (Threw e c')
      | Some (Exited c') \<Rightarrow> Some (Exited c'))"

text \<open>
  \<open>startCollection\<close> (lines 136-158). \<open>egw\<close> is the enterprise request, which gives the
  logins of \<open>enterpriseData.organizations.nodes\<close>; it stands outside the \<open>try\<close>. \<open>ex1\<close> is
  what happens to the first invocation of \<open>endCollection\<close>, \<open>ex2\<close> to the one the handler
  makes after the first has thrown.
\<close>

definition startCollection ::
  "gateway \<Rightarrow> (string \<Rightarrow> login list response) \<Rightarrow> exporter \<Rightarrow> exporter \<Rightarrow> string \<Rightarrow> nat \<Rightarrow>
     collector \<times> files \<Rightarrow> (collector \<times> files) completion option" where
  "startCollection gw egw ex1 ex2 eol fuel s =
     (let c = fst s; fs = snd s
      in case (case enterprise c of
                 Some e \<Rightarrow>
                   (if e \<noteq> [] then
                      (case egw e of
                         Rejected err \<Rightarrow> Inl (GatewayError err)
                       | Resolved ls \<Rightarrow> Inr (c\<lparr>organizations := ls\<rparr>))
                    else Inr c)
               | None \<Rightarrow> Inr c) of
           Inl err \<Rightarrow> Some (Threw err (c, fs))
         | Inr c1 \<Rightarrow>
             (case collectAll gw fuel c1 (organizations c1) of
                None \<Rightarrow> None
              | Some (Returned c2) \<Rightarrow>
                  (case endCollection ex1 eol (c2, fs) of
                     Threw err s2 \<Rightarrow> Some (endCollection ex2 eol s2)
                   | other \<Rightarrow> Some other)
              | Some (Threw err c2) \<Rightarrow> Some (endCollection ex1 eol (c2, fs))
              | Some (Exited c2) \<Rightarrow> Some (Exited (c2, fs))))"

text \<open>
  The constructor (lines 36-54): \<open>validateInput\<close> reports a failure and ends the process
  when both selectors are truthy.
\<close>

datatype construction = ConfigurationError string | Constructed collector

definition validateInput :: "string option \<Rightarrow> string option \<Rightarrow> bool" where
  "validateInput organization enterprise' = (truthy organization \<and> truthy enterprise')"

definition constructor ::
  "string option \<Rightarrow> string option \<Rightarrow> string option \<Rightarrow> options_rec \<Rightarrow> construction" where
  "constructor token organization enterprise' options' =
     (if validateInput organization enterprise' then
        ConfigurationError ''The organization and enterprise parameter are mutually exclusive.''
      else Constructed
        \<lparr>organizations = [organization],
         enterprise = enterprise',
         options = options',
         result = (case data_opt options' of Some d \<Rightarrow> d | None \<Rightarrow> []),
         normalizedData = []\<rparr>)"

text \<open>
  \<open>main\<close> (lines 257-267). \<open>core.getInput\<close> gives the empty string for an input that is
  not set; an environment variable is a string or \<open>undefined\<close>.
\<close>

record environment =
  input_token :: string
  input_organization :: string
  input_enterprise :: string
  input_issue :: string
  env_TOKEN :: "string option"
  env_ORGANIZATION :: "string option"
  env_ENTERPRISE :: "string option"
  env_ISSUE :: "string option"
  env_GITHUB_REPOSITORY :: "string option"

definition or_env :: "string \<Rightarrow> string option \<Rightarrow> string option" where
  "or_env a b = (if a \<noteq> [] then Some a else b)"

datatype run_end = ConfigExit string | Run "(collector \<times> files) completion"

definition main ::
  "gateway \<Rightarrow> (string \<Rightarrow> login list response) \<Rightarrow> exporter \<Rightarrow> exporter \<Rightarrow> string \<Rightarrow> nat \<Rightarrow>
     environment \<Rightarrow> run_end option" where
  "main gw egw ex1 ex2 eol fuel env =
     (let token = or_env (input_token env) (env_TOKEN env);
          organization = or_env (input_organization env) (env_ORGANIZATION env);
          enterprise' = or_env (input_enterprise env) (env_ENTERPRISE env)
      in case constructor token organization enterprise'
                \<lparr>repository_opt = env_GITHUB_REPOSITORY env,
                 postToIssue = or_env (input_issue env) (env_ISSUE env),
                 data_opt = None\<rparr> of
           ConfigurationError m \<Rightarrow> Some (ConfigExit m)
         | Constructed c \<Rightarrow> map_option Run (startCollection gw egw ex1 ex2 eol fuel (c, [])))"

section \<open>A reference Gateway\<close>

text \<open>
  Modelled from the spec: the query documents (\<open>./queries\<close>) and the remote API behind
  \<open>graphqlClient\<close> are not part of the source; the engine takes the Gateway as a parameter,
  and this is the Gateway of the contract the specification describes.
  A well-behaved Gateway over finite collections, used to run the engine: every
  organization has a finite list of repositories, each with a finite list of
  collaborators, and a flag marking a repository whose collaborators cannot be queried.
  A cursor is the position it points behind (a token of that length), so cursors advance
  monotonically. A page holds one repository and at most \<open>psize\<close> of its collaborators,
  as the query of the action asks for (\<open>paged_gateway_page\<close> below spells a page out). A
  request for a repository that cannot be queried is rejected with the message of GitHub
  for it and the partial page.
\<close>

record repo_source =
  src_name :: string
  src_archived :: bool
  src_collaborators :: "edge list"

definition position :: "cursor \<Rightarrow> nat" where
  "position cur = (case cur of None \<Rightarrow> 0 | Some s \<Rightarrow> length s)"

definition cursor_at :: "nat \<Rightarrow> cursor" where
  "cursor_at k = Some (replicate k CHR ''c'')"

definition no_such_organization :: gql_error where
  "no_such_organization =
     \<lparr>message = ''Could not resolve to an Organization with that login.'',
      error_data = \<lparr>failed_nodes = [], failed_pageInfo = \<lparr>hasNextPage = False, endCursor = None\<rparr>\<rparr>\<rparr>"

definition paged_gateway :: "nat \<Rightarrow> (string \<times> repo_source list) list \<Rightarrow> gateway" where
  "paged_gateway psize db organization collaboratorsCursor repositoriesCursor =
     (case organization of
        None \<Rightarrow> Rejected no_such_organization
      | Some l \<Rightarrow>
          (case map_of db l of
             None \<Rightarrow> Rejected no_such_organization
           | Some repos \<Rightarrow>
               (let ri = position repositoriesCursor;
                    ci = position collaboratorsCursor;
                    info = \<lparr>hasNextPage = ri + 1 < length repos,
                            endCursor = (if ri < length repos then cursor_at (ri + 1) else None)\<rparr>
                in if length repos \<le> ri then
                     Resolved (Some \<lparr>repositories = \<lparr>nodes = [], repositoriesPageInfo = info\<rparr>\<rparr>)
                   else
                     let r = repos ! ri; es = src_collaborators r
                     in if src_archived r then
                          Rejected \<lparr>message = ERROR_MESSAGE_ARCHIVED_REPO,
                                    error_data = \<lparr>failed_nodes = [src_name r], failed_pageInfo = info\<rparr>\<rparr>
                        else
                          Resolved (Some \<lparr>repositories =
                            \<lparr>nodes =
                               [\<lparr>name = src_name r,
                                 collaborators =
                                   \<lparr>edges = take psize (drop ci es),
                                    pageInfo =
                                      \<lparr>hasNextPage = ci + psize < length es,
                                       endCursor =
                                         (if ci < length es then cursor_at (min (ci + psize) (length es))
                                          else None)\<rparr>\<rparr>,
                                 previousCursor = None\<rparr>],
                             repositoriesPageInfo = info\<rparr>\<rparr>))))"

definition mk_edge :: "string \<Rightarrow> string \<Rightarrow> string \<Rightarrow> edge" where
  "mk_edge n l p = \<lparr>node = \<lparr>user_name = Some n, user_login = l\<rparr>, permission = p\<rparr>"

definition new_collector :: "login list \<Rightarrow> collector" where
  "new_collector ls =
     \<lparr>organizations = ls, enterprise = None,
      options = \<lparr>repository_opt = None, postToIssue = None, data_opt = None\<rparr>,
      result = [], normalizedData = []\<rparr>"

text \<open>
  The scenario of the specification: organization \<open>acme\<close> with repository \<open>r1\<close> (alice, then
  bob, in two collaborator pages of size 1) and repository \<open>r2\<close> (carol, one page).
\<close>

definition acme_db :: "(string \<times> repo_source list) list" where
  "acme_db =
     [(''acme'',
       [\<lparr>src_name = ''r1'', src_archived = False,
          src_collaborators = [mk_edge ''Alice'' ''alice'' ''admin'', mk_edge ''Bob'' ''bob'' ''read'']\<rparr>,
        \<lparr>src_name = ''r2'', src_archived = False,
          src_collaborators = [mk_edge ''Carol'' ''carol'' ''write'']\<rparr>])]"

section \<open>Observations and scenarios\<close>

text \<open>
  The records of one accumulator in nesting order: its repositories in sequence order,
  for each its collaborator edges in sequence order. A \<open>null\<close> accumulator has none.
\<close>

definition org_records :: "string option \<Rightarrow> string \<Rightarrow> organization option \<Rightarrow> jsval list list" where
  "org_records ent organization acc =
     (case acc of None \<Rightarrow> []
      | Some org \<Rightarrow>
          concat (map (\<lambda>repository. map (flat_record ent organization repository)
                         (edges (collaborators repository)))
                    (nodes (repositories org))))"

definition nested_records :: "string option \<Rightarrow> (string \<times> organization option) list \<Rightarrow> jsval list list" where
  "nested_records ent kvs = concat (map (\<lambda>kv. org_records ent (fst kv) (snd kv)) kvs)"

definition accumulator_of :: "(string \<times> organization option) list \<Rightarrow> string \<Rightarrow> organization option" where
  "accumulator_of kvs k = (case obj_get kvs k of Some acc \<Rightarrow> acc | None \<Rightarrow> None)"

definition keyed_records :: "string option \<Rightarrow> (string \<times> organization option) list \<Rightarrow> string list \<Rightarrow> jsval list list" where
  "keyed_records ent kvs ks = concat (map (\<lambda>k. org_records ent k (accumulator_of kvs k)) ks)"

text \<open>Exporters: every step completes; the first write throws.\<close>

definition all_ok :: exporter where
  "all_ok = \<lparr>json_write_ok = True, csv_write_ok = True, upload_ok = True, post_ok = True\<rparr>"

definition json_write_fails :: exporter where
  "json_write_fails = \<lparr>json_write_ok = False, csv_write_ok = True, upload_ok = True, post_ok = True\<rparr>"

text \<open>The state in which a method ended.\<close>

definition final_state :: "'s completion \<Rightarrow> 's" where
  "final_state x = (case x of Returned s \<Rightarrow> s | Threw e s \<Rightarrow> s | Exited s \<Rightarrow> s)"

text \<open>
  A repository entry, given by its name, its edges, the page info of its collaborators
  and its \<open>previousCursor\<close>; and the collector at the end of the traversal of \<open>acme\<close>.
\<close>

definition repo_entry :: "string \<Rightarrow> edge list \<Rightarrow> bool \<Rightarrow> cursor \<Rightarrow> cursor \<Rightarrow> repository" where
  "repo_entry nm es nxt endc prev =
     \<lparr>name = nm, collaborators = \<lparr>edges = es, pageInfo = \<lparr>hasNextPage = nxt, endCursor = endc\<rparr>\<rparr>,
      previousCursor = prev\<rparr>"

definition acme_state :: collector where
  "acme_state =
     (new_collector [Some ''acme''])
       \<lparr>result :=
          [(''acme'', Some \<lparr>repositories =
             \<lparr>nodes =
                [repo_entry ''r1''
                   [mk_edge ''Alice'' ''alice'' ''admin'', mk_edge ''Alice'' ''alice'' ''admin'',
                    mk_edge ''Bob'' ''bob'' ''read'']
                   True (Some ''c'') (Some ''c''),
                 repo_entry ''r2'' [mk_edge ''Carol'' ''carol'' ''write''] False (Some ''c'') None],
              repositoriesPageInfo = \<lparr>hasNextPage = True, endCursor = Some ''c''\<rparr>\<rparr>\<rparr>)]\<rparr>"

text \<open>
  Two organizations, processed in the order \<open>zeta\<close>, \<open>7\<close>; the second login is a numeral.
\<close>

definition numeric_db :: "(string \<times> repo_source list) list" where
  "numeric_db =
     [(''zeta'', [\<lparr>src_name = ''site'', src_archived = False,
                   src_collaborators = [mk_edge ''Zoe'' ''zoe'' ''admin'']\<rparr>]),
      (''7'', [\<lparr>src_name = ''tools'', src_archived = False,
                src_collaborators = [mk_edge ''Sam'' ''sam'' ''read'']\<rparr>])]"

definition numeric_state :: collector where
  "numeric_state =
     (new_collector [Some ''zeta'', Some ''7''])
       \<lparr>result :=
          [(''zeta'', Some \<lparr>repositories =
             \<lparr>nodes = [repo_entry ''site'' [mk_edge ''Zoe'' ''zoe'' ''admin'', mk_edge ''Zoe'' ''zoe'' ''admin'']
                         False (Some ''c'') None],
              repositoriesPageInfo = \<lparr>hasNextPage = False, endCursor = Some ''c''\<rparr>\<rparr>\<rparr>),
           (''7'', Some \<lparr>repositories =
             \<lparr>nodes = [repo_entry ''tools'' [mk_edge ''Sam'' ''sam'' ''read'', mk_edge ''Sam'' ''sam'' ''read'']
                         False (Some ''c'') None],
              repositoriesPageInfo = \<lparr>hasNextPage = False, endCursor = Some ''c''\<rparr>\<rparr>\<rparr>)]\<rparr>"

text \<open>
  The scenario of the specification where the Gateway returns zero repositories for
  organization \<open>empty-org\<close>.
\<close>

definition empty_db :: "(string \<times> repo_source list) list" where
  "empty_db = [(''empty-org'', [])]"

text \<open>The header line of the tabular text, without its line break.\<close>

definition csv_header :: string where
  "csv_header = ''enterprise,organization,repo,user,login,permission''"

text \<open>
  A run where no input and no environment variable selects an organization or an
  enterprise.
\<close>

definition no_inputs :: environment where
  "no_inputs =
     \<lparr>input_token = [], input_organization = [], input_enterprise = [], input_issue = [],
      env_TOKEN = Some ''t'', env_ORGANIZATION = None, env_ENTERPRISE = None, env_ISSUE = None,
      env_GITHUB_REPOSITORY = None\<rparr>"

text \<open>
  Organization \<open>beta\<close>: repository \<open>r1\<close> with one collaborator, then repository \<open>r2\<close> with two
  collaborators, so that with pages of size 1 the second repository needs two pages.
\<close>

definition beta_db :: "(string \<times> repo_source list) list" where
  "beta_db =
     [(''beta'',
       [\<lparr>src_name = ''r1'', src_archived = False,
          src_collaborators = [mk_edge ''Alice'' ''alice'' ''admin'']\<rparr>,
        \<lparr>src_name = ''r2'', src_archived = False,
          src_collaborators = [mk_edge ''Bob'' ''bob'' ''read'', mk_edge ''Carol'' ''carol'' ''write'']\<rparr>])]"

text \<open>The accumulator of \<open>beta\<close> once \<open>r1\<close> is done, and the first page of \<open>r2\<close>.\<close>

definition beta_before :: organization where
  "beta_before =
     \<lparr>repositories =
        \<lparr>nodes = [repo_entry ''r1'' [mk_edge ''Alice'' ''alice'' ''admin'', mk_edge ''Alice'' ''alice'' ''admin'']
                    False (Some ''c'') None],
         repositoriesPageInfo = \<lparr>hasNextPage = True, endCursor = Some ''c''\<rparr>\<rparr>\<rparr>"

definition beta_r2 :: repository where
  "beta_r2 = repo_entry ''r2'' [mk_edge ''Bob'' ''bob'' ''read''] True (Some ''c'') None"

definition beta_page :: organization where
  "beta_page =
     \<lparr>repositories =
        \<lparr>nodes = [beta_r2], repositoriesPageInfo = \<lparr>hasNextPage = False, endCursor = Some ''cc''\<rparr>\<rparr>\<rparr>"

definition beta_after :: organization where
  "beta_after =
     \<lparr>repositories =
        \<lparr>nodes = [repo_entry ''r1'' [mk_edge ''Alice'' ''alice'' ''admin'', mk_edge ''Alice'' ''alice'' ''admin'']
                    False (Some ''c'') (Some ''c''),
                  beta_r2],
         repositoriesPageInfo = \<lparr>hasNextPage = True, endCursor = Some ''c''\<rparr>\<rparr>\<rparr>"

text \<open>
  The scenario of the specification with an archived repository: \<open>archived1\<close> is the second
  of three repositories of organization \<open>gamma\<close>. \<open>respelled_gateway\<close> is the same Gateway,
  but it surfaces the rejection with the message the specification quotes.
\<close>

definition archived_db :: "(string \<times> repo_source list) list" where
  "archived_db =
     [(''gamma'',
       [\<lparr>src_name = ''r1'', src_archived = False,
          src_collaborators = [mk_edge ''Alice'' ''alice'' ''admin'']\<rparr>,
        \<lparr>src_name = ''archived1'', src_archived = True,
          src_collaborators = [mk_edge ''Bob'' ''bob'' ''read'']\<rparr>,
        \<lparr>src_name = ''r3'', src_archived = False,
          src_collaborators = [mk_edge ''Carol'' ''carol'' ''write'']\<rparr>])]"

definition spec_message :: string where
  "spec_message = ''must have administrative access to view collaborators of an archived repository''"

definition respelled_gateway :: gateway where
  "respelled_gateway organization collaboratorsCursor repositoriesCursor =
     (case paged_gateway 1 archived_db organization collaboratorsCursor repositoriesCursor of
        Rejected e \<Rightarrow> Rejected (e\<lparr>message := spec_message\<rparr>)
      | Resolved d \<Rightarrow> Resolved d)"

definition archived_error :: gql_error where
  "archived_error =
     \<lparr>message = ERROR_MESSAGE_ARCHIVED_REPO,
      error_data = \<lparr>failed_nodes = [''archived1''],
                    failed_pageInfo = \<lparr>hasNextPage = True, endCursor = Some ''cc''\<rparr>\<rparr>\<rparr>"

definition gamma_r3_page :: organization where
  "gamma_r3_page =
     \<lparr>repositories =
        \<lparr>nodes = [repo_entry ''r3'' [mk_edge ''Carol'' ''carol'' ''write''] False (Some ''c'') None],
         repositoriesPageInfo = \<lparr>hasNextPage = False, endCursor = Some ''ccc''\<rparr>\<rparr>\<rparr>"

definition gamma_state :: collector where
  "gamma_state =
     (new_collector [Some ''gamma''])
       \<lparr>result :=
          [(''gamma'', Some \<lparr>repositories =
             \<lparr>nodes =
                [repo_entry ''r1''
                   [mk_edge ''Alice'' ''alice'' ''admin'', mk_edge ''Alice'' ''alice'' ''admin'']
                   False (Some ''c'') (Some ''c''),
                 repo_entry ''r3'' [mk_edge ''Carol'' ''carol'' ''write''] False (Some ''c'') None],
              repositoriesPageInfo = \<lparr>hasNextPage = True, endCursor = Some ''c''\<rparr>\<rparr>\<rparr>)]\<rparr>"

text \<open>
  A response that gives no data for an organization: a rejection other than the classified
  one, a \<open>null\<close> organization, or a page without repositories.
\<close>

definition no_data :: "organization option response \<Rightarrow> bool" where
  "no_data r =
     (case r of
        Rejected e \<Rightarrow> message e \<noteq> ERROR_MESSAGE_ARCHIVED_REPO
      | Resolved None \<Rightarrow> True
      | Resolved (Some d) \<Rightarrow> nodes (repositories d) = [])"

text \<open>
  The partial data of a classified rejection names the offending repository; and the
  accumulator stored for an organization, if there is one, holds at least one repository,
  as every accumulator that \<open>collectData\<close> stores does.
\<close>

definition names_offender :: "gql_error \<Rightarrow> bool" where
  "names_offender e =
     (if message e = ERROR_MESSAGE_ARCHIVED_REPO then failed_nodes (error_data e) \<noteq> [] else True)"

definition stored_nonempty :: "collector \<Rightarrow> login \<Rightarrow> bool" where
  "stored_nonempty c organization =
     (case stored_result c organization of
        None \<Rightarrow> True
      | Some r \<Rightarrow> nodes (repositories r) \<noteq> [])"

text \<open>
  The collector that the constructor builds for the enterprise \<open>corp\<close>, whose organizations
  are \<open>ghost\<close>, which the Gateway cannot resolve, and \<open>beta\<close>.
\<close>

definition corp_collector :: collector where
  "corp_collector = (new_collector [None])\<lparr>enterprise := Some ''corp''\<rparr>"

definition corp_organizations :: "string \<Rightarrow> login list response" where
  "corp_organizations e = Resolved [Some ''ghost'', Some ''beta'']"





section \<open>Lemmas\<close>

subsection \<open>The normalizer appends the records in nesting order\<close>

lemma forEach_Nil: "forEach [] f s = s"
  by (simp add: forEach_def)

lemma forEach_Cons: "forEach (x # xs) f s = forEach xs f (f x s)"
  by (simp add: forEach_def)

lemma forEach_push:
  "forEach es (push_record k r) c =
     c\<lparr>normalizedData := normalizedData c @ map (flat_record (enterprise c) k r) es\<rparr>"
proof (induction es arbitrary: c)
  case Nil
  show ?case by (simp add: forEach_Nil)
next
  case (Cons e es)
  show ?case unfolding forEach_Cons Cons.IH by (simp add: push_record_def)
qed

lemma forEach_repositories:
  "forEach rs (\<lambda>r. forEach (edges (collaborators r)) (push_record k r)) c =
     c\<lparr>normalizedData := normalizedData c @ org_records (enterprise c) k
         (Some \<lparr>repositories = \<lparr>nodes = rs, repositoriesPageInfo = i\<rparr>\<rparr>)\<rparr>"
proof (induction rs arbitrary: c)
  case Nil
  show ?case by (simp add: forEach_Nil org_records_def)
next
  case (Cons r rs)
  show ?case unfolding forEach_Cons Cons.IH by (simp add: forEach_push org_records_def)
qed

lemma forEach_nodes:
  "forEach (nodes (repositories org)) (\<lambda>r. forEach (edges (collaborators r)) (push_record k r)) c =
     c\<lparr>normalizedData := normalizedData c @ org_records (enterprise c) k (Some org)\<rparr>"
  using forEach_repositories [of "nodes (repositories org)" k c]
  by (simp add: org_records_def)

lemma normalize_organization_eq:
  "normalize_organization k c = c\<lparr>normalizedData := normalizedData c @ org_records (enterprise c) k (accumulator_of (result c) k)\<rparr>"
  by (simp add: normalize_organization_def forEach_nodes accumulator_of_def org_records_def split: option.splits)

lemma forEach_organizations:
  "forEach ks normalize_organization c =
     c\<lparr>normalizedData := normalizedData c @ keyed_records (enterprise c) (result c) ks\<rparr>"
proof (induction ks arbitrary: c)
  case Nil
  show ?case by (simp add: forEach_Nil keyed_records_def)
next
  case (Cons k ks)
  show ?case unfolding forEach_Cons Cons.IH by (simp add: normalize_organization_eq keyed_records_def)
qed

lemma normalizeResult_eq:
  "normalizeResult c =
     c\<lparr>normalizedData := normalizedData c @ keyed_records (enterprise c) (result c) (obj_keys (result c))\<rparr>"
proof -
  have "normalizeResult c = forEach (obj_keys (result c)) normalize_organization c"
    by (simp add: normalizeResult_def)
  then show ?thesis by (simp add: forEach_organizations)
qed

lemma obj_keys_plain:
  "list_all (\<lambda>k. \<not> is_array_index k) (map fst kvs) \<Longrightarrow> obj_keys kvs = map fst kvs"
  by (simp add: obj_keys_def list_all_iff filter_empty_conv filter_id_conv)

lemma keyed_records_distinct:
  assumes "distinct (map fst kvs)"
  shows "keyed_records ent kvs (map fst kvs) = nested_records ent kvs"
proof -
  have "accumulator_of kvs (fst kv) = snd kv" if "kv \<in> set kvs" for kv
  proof -
    have "(fst kv, snd kv) \<in> set kvs" using that by simp
    then have "map_of kvs (fst kv) = Some (snd kv)"
      using assms by (simp only: map_of_eq_Some_iff)
    then show ?thesis by (simp add: obj_get_def accumulator_of_def)
  qed
  then show ?thesis
    by (simp add: keyed_records_def nested_records_def comp_def cong: map_cong)
qed


subsection \<open>The traversals of the scenarios\<close>

lemmas run_defs =
  paged_gateway_def new_collector_def mk_edge_def repo_entry_def position_def cursor_at_def
  key_of_def obj_get_def stored_result_def mergePage_def nextCall_def set_nodes_def set_edges_def
  ERROR_MESSAGE_ARCHIVED_REPO_def

lemma acme_collectAll:
  "collectAll (paged_gateway 1 acme_db) 3 (new_collector [Some ''acme'']) [Some ''acme''] =
     Some (Returned acme_state)"
  by (simp add: acme_db_def acme_state_def run_defs numeral_3_eq_3)

lemma acme_records:
  "normalizedData (normalizeResult acme_state) =
     [[JUndefined, JString ''acme'', JString ''r1'', JString ''Alice'', JString ''alice'', JString ''admin''],
      [JUndefined, JString ''acme'', JString ''r1'', JString ''Alice'', JString ''alice'', JString ''admin''],
      [JUndefined, JString ''acme'', JString ''r1'', JString ''Bob'', JString ''bob'', JString ''read''],
      [JUndefined, JString ''acme'', JString ''r2'', JString ''Carol'', JString ''carol'', JString ''write'']]"
  by (simp add: normalizeResult_eq keyed_records_def org_records_def accumulator_of_def obj_keys_def
      is_array_index_def is_digit_def flat_record_def acme_state_def run_defs)


lemma numeric_collectAll:
  "collectAll (paged_gateway 1 numeric_db) 1 (new_collector [Some ''zeta'', Some ''7''])
     [Some ''zeta'', Some ''7''] = Some (Returned numeric_state)"
  by (simp add: numeric_db_def numeric_state_def run_defs)

lemma numeric_keys: "obj_keys (result numeric_state) = [''7'', ''zeta'']"
  by (simp add: numeric_state_def new_collector_def obj_keys_def is_array_index_def is_digit_def
      num_val_def)

subsection \<open>The export of an empty record set\<close>

lemma JSONtoCSV_Nil: "JSONtoCSV eol [] = csv_header @ eol"
  by (simp add: JSONtoCSV_def forEach_Nil csv_keys_def csv_header_def)

lemma stringify_header:
  "stringify_string (csv_header @ [CHR 0x0A]) = CHR 0x22 # csv_header @ [CHR 0x5C, CHR ''n'', CHR 0x22]"
  by (simp add: stringify_string_def csv_header_def json_escape_def)

lemma empty_collectAll:
  "collectAll (paged_gateway 1 empty_db) 1 (new_collector [Some ''empty-org'']) [Some ''empty-org''] =
   Some (Returned ((new_collector [Some ''empty-org''])\<lparr>result := [(''empty-org'', None)]\<rparr>))"
  by (simp add: empty_db_def run_defs)

lemma normalizeResult_null:
  "normalizeResult ((new_collector ls)\<lparr>result := [(k, None)]\<rparr>) = (new_collector ls)\<lparr>result := [(k, None)]\<rparr>"
  by (simp add: normalizeResult_eq keyed_records_def accumulator_of_def obj_get_def org_records_def
      obj_keys_def new_collector_def)

lemma startCollection_returned:
  assumes "enterprise c = None" "collectAll gw fuel c (organizations c) = Some (Returned c2)"
  shows "startCollection gw egw ex1 ex2 eol fuel (c, fs) =
     Some (case endCollection ex1 eol (c2, fs) of
             Threw err s2 \<Rightarrow> endCollection ex2 eol s2
           | other \<Rightarrow> other)"
  using assms by (simp add: startCollection_def split: completion.splits)

lemma endCollection_null:
  "endCollection all_ok [CHR 0x0A] ((new_collector ls)\<lparr>result := [(k, None)]\<rparr>, []) =
     Exited ((new_collector ls)\<lparr>result := [(k, None)]\<rparr>,
         [(''./data/raw-data.json'', ''[]''),
          (''./data/raw-data.csv'', CHR 0x22 # csv_header @ [CHR 0x5C, CHR ''n'', CHR 0x22])])"
proof -
  have n: "normalizedData ((new_collector ls)\<lparr>result := [(k, None)]\<rparr>) = []"
    by (simp add: new_collector_def)
  show ?thesis
    by (simp add: endCollection_def normalizeResult_null n
        JSONtoCSV_Nil stringify_header all_ok_def stringify_records_def DATA_FOLDER_def
        ARTIFACT_FILE_NAME_def)
qed

subsection \<open>The traversal of beta: one step of the engine, and the loop\<close>

lemma beta_first_call:
  "collectData (paged_gateway 1 beta_db) (Suc fuel)
     ((new_collector ls)\<lparr>result := [(''beta'', None)]\<rparr>) (Some ''beta'') None None =
   collectData (paged_gateway 1 beta_db) fuel
     ((new_collector ls)\<lparr>result := [(''beta'', Some beta_before)]\<rparr>) (Some ''beta'') None (Some ''c'')"
  by (simp add: beta_db_def beta_before_def run_defs)

lemma beta_second_request:
  "paged_gateway 1 beta_db (Some ''beta'') None (Some ''c'') = Resolved (Some beta_page)"
  by (simp add: beta_db_def beta_page_def beta_r2_def run_defs)

lemma obj_get_obj_set: "obj_get (obj_set kvs k v) k = Some v"
  by (induction kvs) (auto simp: obj_get_def)

lemma stored_result_update:
  "stored_result (c\<lparr>result := obj_set (result c) (key_of l) (Some r)\<rparr>) l = Some r"
  by (simp add: stored_result_def obj_get_obj_set)

lemma mergePage_append:
  assumes "nodes (repositories acc) \<noteq> []"
    "name cur \<noteq> name (last (nodes (repositories acc)))"
  shows "mergePage (Some acc) data cur rc =
     Inr (length (nodes (repositories acc)),
       set_nodes acc
         ((nodes (repositories acc))
            [length (nodes (repositories acc)) - 1 :=
               (last (nodes (repositories acc)))\<lparr>previousCursor := rc\<rparr>] @ [cur]))"
  using assms by (simp add: mergePage_def Let_def last_conv_nth)

lemma mergePage_same:
  assumes "nodes (repositories acc) \<noteq> []"
    "name cur = name (last (nodes (repositories acc)))"
  shows "mergePage (Some acc) data cur rc =
     Inr (length (nodes (repositories acc)),
       set_nodes acc
         ((nodes (repositories acc))
            [length (nodes (repositories acc)) - 1 :=
               set_edges (last (nodes (repositories acc)))
                 (edges (collaborators (last (nodes (repositories acc)))) @
                  edges (collaborators cur))]))"
  using assms by (simp add: mergePage_def Let_def last_conv_nth)

lemma collectData_step:
  assumes "gw organization cc rc = Resolved (Some data)"
    "nodes (repositories data) = cur # rest"
    "mergePage (stored_result c organization) data cur rc = Inr (n, r')"
    "nextCall r' n (pageInfo (collaborators cur)) (repositoriesPageInfo (repositories data)) =
       Inr (Some (cc', rc'))"
  shows "collectData gw (Suc fuel) c organization cc rc =
     collectData gw fuel (c\<lparr>result := obj_set (result c) (key_of organization) (Some r')\<rparr>)
       organization cc' rc'"
  using assms by simp

lemma beta_request_collaborators:
  "paged_gateway 1 beta_db (Some ''beta'') (Some ''c'') None =
     Resolved (Some \<lparr>repositories =
       \<lparr>nodes = [repo_entry ''r1'' [] False None None],
        repositoriesPageInfo = \<lparr>hasNextPage = True, endCursor = Some ''c''\<rparr>\<rparr>\<rparr>)"
  by (simp add: beta_db_def paged_gateway_def repo_entry_def position_def cursor_at_def)

lemma beta_step_collaborators:
  assumes "stored_result c (Some ''beta'') = Some acc" "nodes (repositories acc) \<noteq> []"
    "name (last (nodes (repositories acc))) = ''r2''"
  shows "collectData (paged_gateway 1 beta_db) (Suc fuel) c (Some ''beta'') (Some ''c'') None =
     collectData (paged_gateway 1 beta_db) fuel
       (c\<lparr>result := obj_set (result c) (key_of (Some ''beta''))
          (Some (set_nodes acc
             ((nodes (repositories acc))
                [length (nodes (repositories acc)) - 1 :=
                   (last (nodes (repositories acc)))\<lparr>previousCursor := None\<rparr>]
              @ [repo_entry ''r1'' [] False None None])))\<rparr>)
       (Some ''beta'') None (Some ''c'')"
proof (rule collectData_step [where gw = "paged_gateway 1 beta_db" and organization = "Some ''beta''"
      and cc = "Some ''c''" and rc = None, OF beta_request_collaborators])
  show "nodes (repositories \<lparr>repositories =
       \<lparr>nodes = [repo_entry ''r1'' [] False None None],
        repositoriesPageInfo = \<lparr>hasNextPage = True, endCursor = Some ''c''\<rparr>\<rparr>\<rparr>) =
     repo_entry ''r1'' [] False None None # []"
    by simp
  show "mergePage (stored_result c (Some ''beta''))
     \<lparr>repositories =
       \<lparr>nodes = [repo_entry ''r1'' [] False None None],
        repositoriesPageInfo = \<lparr>hasNextPage = True, endCursor = Some ''c''\<rparr>\<rparr>\<rparr>
     (repo_entry ''r1'' [] False None None) None =
     Inr (length (nodes (repositories acc)),
       set_nodes acc
         ((nodes (repositories acc))
            [length (nodes (repositories acc)) - 1 :=
               (last (nodes (repositories acc)))\<lparr>previousCursor := None\<rparr>]
          @ [repo_entry ''r1'' [] False None None]))"
    unfolding assms(1)
    by (rule mergePage_append) (simp_all add: assms repo_entry_def)
  show "nextCall
     (set_nodes acc
         ((nodes (repositories acc))
            [length (nodes (repositories acc)) - 1 :=
               (last (nodes (repositories acc)))\<lparr>previousCursor := None\<rparr>]
          @ [repo_entry ''r1'' [] False None None]))
     (length (nodes (repositories acc)))
     (pageInfo (collaborators (repo_entry ''r1'' [] False None None)))
     (repositoriesPageInfo (repositories \<lparr>repositories =
       \<lparr>nodes = [repo_entry ''r1'' [] False None None],
        repositoriesPageInfo = \<lparr>hasNextPage = True, endCursor = Some ''c''\<rparr>\<rparr>\<rparr>)) =
     Inr (Some (None, Some ''c''))"
    by (simp add: nextCall_def repo_entry_def)
qed

lemma beta_step_repositories:
  assumes "stored_result c (Some ''beta'') = Some acc" "nodes (repositories acc) \<noteq> []"
    "name (last (nodes (repositories acc))) = ''r1''"
    "length (nodes (repositories acc)) = 1 \<or>
     previousCursor (nodes (repositories acc) ! (length (nodes (repositories acc)) - 2)) = None"
  shows "collectData (paged_gateway 1 beta_db) (Suc fuel) c (Some ''beta'') None (Some ''c'') =
     collectData (paged_gateway 1 beta_db) fuel
       (c\<lparr>result := obj_set (result c) (key_of (Some ''beta''))
          (Some (set_nodes acc
             ((nodes (repositories acc))
                [length (nodes (repositories acc)) - 1 :=
                   (last (nodes (repositories acc)))\<lparr>previousCursor := Some ''c''\<rparr>]
              @ [beta_r2])))\<rparr>)
       (Some ''beta'') (Some ''c'') None"
proof (rule collectData_step [where gw = "paged_gateway 1 beta_db" and organization = "Some ''beta''"
      and cc = None and rc = "Some ''c''", OF beta_second_request])
  let ?ns = "nodes (repositories acc)"
  let ?ns' = "?ns[length ?ns - 1 := (last ?ns)\<lparr>previousCursor := Some ''c''\<rparr>] @ [beta_r2]"
  show "nodes (repositories beta_page) = beta_r2 # []"
    by (simp add: beta_page_def)
  show "mergePage (stored_result c (Some ''beta'')) beta_page beta_r2 (Some ''c'') =
     Inr (length ?ns, set_nodes acc ?ns')"
    unfolding assms(1)
    by (rule mergePage_append) (simp_all add: assms beta_r2_def repo_entry_def)
  have l: "0 < length ?ns" using assms(2) by simp
  have p: "previousCursor (?ns' ! (length ?ns - 2)) = None" if n: "length ?ns \<noteq> 1"
  proof -
    have "length ?ns - 2 < length ?ns" "length ?ns - 2 \<noteq> length ?ns - 1" using l n by arith+
    then show ?thesis using assms(4) n by (simp add: nth_append)
  qed
  have g: "2 \<le> length ?ns" if "length ?ns \<noteq> 1" using that l by arith
  have h: "hasNextPage (pageInfo (collaborators beta_r2))"
    "endCursor (pageInfo (collaborators beta_r2)) = Some ''c''"
    by (simp_all add: beta_r2_def repo_entry_def)
  have i: "nodes (repositories (set_nodes acc ?ns')) = ?ns'"
    by (simp add: set_nodes_def)
  show "nextCall (set_nodes acc ?ns') (length ?ns) (pageInfo (collaborators beta_r2))
     (repositoriesPageInfo (repositories beta_page)) = Inr (Some (Some ''c'', None))"
    unfolding nextCall_def i using h p g by auto
qed

lemma nodes_set_nodes: "nodes (repositories (set_nodes acc ns)) = ns"
  by (simp add: set_nodes_def)

lemma beta_loop:
  assumes "stored_result c (Some ''beta'') = Some acc" "nodes (repositories acc) \<noteq> []"
  shows "(name (last (nodes (repositories acc))) = ''r2'' \<longrightarrow>
            collectData (paged_gateway 1 beta_db) fuel c (Some ''beta'') (Some ''c'') None = None)
       \<and> (name (last (nodes (repositories acc))) = ''r1''
            \<and> (length (nodes (repositories acc)) = 1
                \<or> previousCursor (nodes (repositories acc) ! (length (nodes (repositories acc)) - 2)) = None)
          \<longrightarrow> collectData (paged_gateway 1 beta_db) fuel c (Some ''beta'') None (Some ''c'') = None)"
  using assms
proof (induction fuel arbitrary: c acc)
  case 0
  show ?case by simp
next
  case (Suc fuel)
  let ?ns = "nodes (repositories acc)"
  have l: "0 < length ?ns" using Suc.prems(2) by simp
  have a: "collectData (paged_gateway 1 beta_db) (Suc fuel) c (Some ''beta'') (Some ''c'') None = None"
    if r2: "name (last ?ns) = ''r2''"
  proof -
    let ?ns' = "?ns[length ?ns - 1 := (last ?ns)\<lparr>previousCursor := None\<rparr>] @ [repo_entry ''r1'' [] False None None]"
    let ?c' = "c\<lparr>result := obj_set (result c) (key_of (Some ''beta'')) (Some (set_nodes acc ?ns'))\<rparr>"
    have s: "stored_result ?c' (Some ''beta'') = Some (set_nodes acc ?ns')"
      by (rule stored_result_update)
    have n: "nodes (repositories (set_nodes acc ?ns')) \<noteq> []"
      by (simp add: nodes_set_nodes)
    have "length ?ns' - 2 = length ?ns - 1" by simp
    then have p: "previousCursor (?ns' ! (length ?ns' - 2)) = None"
      using l by (simp add: nth_append)
    have q: "name (last ?ns') = ''r1''" by (simp add: repo_entry_def)
    from Suc.IH [OF s n] p q
    have "collectData (paged_gateway 1 beta_db) fuel ?c' (Some ''beta'') None (Some ''c'') = None"
      unfolding nodes_set_nodes by blast
    then show ?thesis
      using beta_step_collaborators [OF Suc.prems(1,2) r2] by simp
  qed
  have b: "collectData (paged_gateway 1 beta_db) (Suc fuel) c (Some ''beta'') None (Some ''c'') = None"
    if r1: "name (last ?ns) = ''r1''"
      and pc: "length ?ns = 1 \<or> previousCursor (?ns ! (length ?ns - 2)) = None"
  proof -
    let ?ns' = "?ns[length ?ns - 1 := (last ?ns)\<lparr>previousCursor := Some ''c''\<rparr>] @ [beta_r2]"
    let ?c' = "c\<lparr>result := obj_set (result c) (key_of (Some ''beta'')) (Some (set_nodes acc ?ns'))\<rparr>"
    have s: "stored_result ?c' (Some ''beta'') = Some (set_nodes acc ?ns')"
      by (rule stored_result_update)
    have n: "nodes (repositories (set_nodes acc ?ns')) \<noteq> []"
      by (simp add: nodes_set_nodes)
    have q: "name (last ?ns') = ''r2''" by (simp add: beta_r2_def repo_entry_def)
    from Suc.IH [OF s n] q
    have "collectData (paged_gateway 1 beta_db) fuel ?c' (Some ''beta'') (Some ''c'') None = None"
      unfolding nodes_set_nodes by blast
    then show ?thesis
      using beta_step_repositories [OF Suc.prems(1,2) r1 pc] by simp
  qed
  show ?case using a b by blast
qed

subsection \<open>The archived repository\<close>

lemma gamma_rejected:
  "paged_gateway 1 archived_db (Some ''gamma'') None (Some ''c'') = Rejected archived_error"
  by (simp add: archived_db_def archived_error_def paged_gateway_def position_def cursor_at_def)

lemma gamma_retried:
  "requestOrganizationData (paged_gateway 1 archived_db) 1 (Some ''gamma'') None (Some ''cc'') =
     Some (Inr (Some gamma_r3_page))"
  by (simp add: archived_db_def gamma_r3_page_def run_defs)

lemma gamma_respelled:
  "respelled_gateway (Some ''gamma'') None (Some ''c'') = Rejected (archived_error\<lparr>message := spec_message\<rparr>)"
  unfolding respelled_gateway_def gamma_rejected by simp

lemma gamma_respelled_retried:
  "requestOrganizationData respelled_gateway 1 (Some ''gamma'') None (Some ''cc'') =
     Some (Inr (Some gamma_r3_page))"
  by (simp add: respelled_gateway_def archived_db_def gamma_r3_page_def run_defs)

lemma spec_message_differs: "spec_message \<noteq> ERROR_MESSAGE_ARCHIVED_REPO"
  by (simp add: spec_message_def ERROR_MESSAGE_ARCHIVED_REPO_def)

lemma gamma_collectAll:
  "collectAll (paged_gateway 1 archived_db) 3 (new_collector [Some ''gamma'']) [Some ''gamma''] =
     Some (Returned gamma_state)"
  by (simp add: archived_db_def gamma_state_def run_defs numeral_3_eq_3)

subsection \<open>Requests without data, and a loop that never throws\<close>

lemma collectData_no_data:
  "no_data (gw organization cc rc) \<Longrightarrow>
     collectData gw (Suc fuel) c organization cc rc = Some (Returned c)"
  by (auto simp: no_data_def split: response.splits option.splits)

lemma collectAll_no_data:
  "no_data (gw l None None) \<Longrightarrow>
     collectAll gw (Suc fuel) c (l # ls) =
       collectAll gw (Suc fuel) (c\<lparr>result := obj_set (result c) (key_of l) None\<rparr>) ls"
  by (simp only: collectAll.simps collectData_no_data option.case completion.case)

lemma collectAll_returned:
  "collectData gw fuel (c\<lparr>result := obj_set (result c) (key_of l) None\<rparr>) l None None =
     Some (Returned c') \<Longrightarrow>
   collectAll gw fuel c (l # ls) = collectAll gw fuel c' ls"
  by simp

lemma requestOrganizationData_no_throw:
  assumes "\<forall>organization cc rc e. gw organization cc rc = Rejected e \<longrightarrow> names_offender e"
  shows "requestOrganizationData gw fuel organization cc rc \<noteq> Some (Inl err)"
proof (induction fuel arbitrary: cc rc)
  case 0
  show ?case by simp
next
  case (Suc fuel)
  show ?case
  proof (cases "gw organization cc rc")
    case (Resolved d)
    then show ?thesis by simp
  next
    case (Rejected e)
    from assms Rejected have "names_offender e" by blast
    then show ?thesis
      using Rejected Suc.IH by (auto simp: names_offender_def split: list.splits if_splits)
  qed
qed

lemma stored_result_reset:
  "stored_result (c\<lparr>result := obj_set (result c) (key_of l) None\<rparr>) l = None"
  by (simp add: stored_result_def obj_get_obj_set)

lemma mergePage_no_throw:
  assumes "nodes (repositories (case stored of Some r \<Rightarrow> r | None \<Rightarrow> data)) \<noteq> []"
  shows "\<exists>n r'. mergePage stored data cur rc = Inr (n, r') \<and> 0 < n
      \<and> n \<le> length (nodes (repositories r'))"
  using assms by (simp add: mergePage_def Let_def set_nodes_def)

lemma nextCall_no_throw:
  assumes "0 < n" "n \<le> length (nodes (repositories r'))"
  shows "nextCall r' n ci ri \<noteq> Inl err"
  using assms by (auto simp: nextCall_def)

lemma collectData_no_throw:
  assumes gw: "\<forall>organization cc rc e. gw organization cc rc = Rejected e \<longrightarrow> names_offender e"
    and c: "stored_nonempty c organization"
  shows "collectData gw fuel c organization cc rc = None
       \<or> (\<exists>c'. collectData gw fuel c organization cc rc = Some (Returned c'))"
  using c
proof (induction fuel arbitrary: c cc rc)
  case 0
  show ?case by simp
next
  case (Suc fuel)
  show ?case
  proof (cases "requestOrganizationData gw (Suc fuel) organization cc rc")
    case None
    then show ?thesis by simp
  next
    case (Some x)
    show ?thesis
    proof (cases x)
      case (Inl err)
      with Some have "requestOrganizationData gw (Suc fuel) organization cc rc = Some (Inl err)"
        by (simp only:)
      with requestOrganizationData_no_throw [OF gw] show ?thesis by blast
    next
      case (Inr d)
      show ?thesis
      proof (cases d)
        case None
        with Some Inr show ?thesis by simp
      next
        case d: (Some data)
        show ?thesis
        proof (cases "nodes (repositories data)")
          case Nil
          with Some Inr d show ?thesis by simp
        next
          case (Cons cur rest)
          have "nodes (repositories (case stored_result c organization of Some r \<Rightarrow> r | None \<Rightarrow> data)) \<noteq> []"
            using Suc.prems Cons by (auto simp: stored_nonempty_def split: option.splits)
          from mergePage_no_throw [OF this, of cur rc]
          obtain n r' where m: "mergePage (stored_result c organization) data cur rc = Inr (n, r')"
            and n: "0 < n" "n \<le> length (nodes (repositories r'))"
            by blast
          let ?c' = "c\<lparr>result := obj_set (result c) (key_of organization) (Some r')\<rparr>"
          have r'ne: "nodes (repositories r') \<noteq> []" using n by auto
          have c': "stored_nonempty ?c' organization"
            using r'ne by (simp add: stored_nonempty_def stored_result_update)
          have e: "collectData gw (Suc fuel) c organization cc rc =
            (case nextCall r' n (pageInfo (collaborators cur)) (repositoriesPageInfo (repositories data)) of
               Inl e \<Rightarrow> Some (Threw e ?c')
             | Inr (Some (cc', rc')) \<Rightarrow> collectData gw fuel ?c' organization cc' rc'
             | Inr None \<Rightarrow> Some (Returned ?c'))"
            using Some Inr d Cons m by (simp add: Let_def)
          show ?thesis
          proof (cases "nextCall r' n (pageInfo (collaborators cur)) (repositoriesPageInfo (repositories data))")
            case (Inl err)
            with nextCall_no_throw [OF n] show ?thesis by blast
          next
            case nx: (Inr y)
            show ?thesis
            proof (cases y)
              case None
              with e nx show ?thesis by simp
            next
              case (Some p)
              obtain cc' rc' where p: "p = (cc', rc')" by (cases p)
              from Suc.IH [OF c', of cc' rc'] e nx Some p show ?thesis by simp
            qed
          qed
        qed
      qed
    qed
  qed
qed

lemma collectAll_no_throw:
  assumes gw: "\<forall>organization cc rc e. gw organization cc rc = Rejected e \<longrightarrow> names_offender e"
  shows "collectAll gw fuel c ls = None \<or> (\<exists>c'. collectAll gw fuel c ls = Some (Returned c'))"
proof (induction ls arbitrary: c)
  case Nil
  then show ?case by simp
next
  case (Cons l ls)
  let ?c = "c\<lparr>result := obj_set (result c) (key_of l) None\<rparr>"
  have "stored_nonempty ?c l"
    by (simp add: stored_nonempty_def stored_result_reset)
  from collectData_no_throw [OF gw this, where fuel = fuel and cc = None and rc = None]
  show ?case
  proof
    assume "collectData gw fuel ?c l None None = None"
    then show ?thesis by simp
  next
    assume "\<exists>c'. collectData gw fuel ?c l None None = Some (Returned c')"
    then obtain c' where r: "collectData gw fuel ?c l None None = Some (Returned c')" by blast
    from Cons.IH [of c'] r show ?thesis by simp
  qed
qed

lemma paged_gateway_names_offender:
  "paged_gateway psize db organization cc rc = Rejected e \<Longrightarrow> names_offender e"
  by (auto simp: paged_gateway_def names_offender_def no_such_organization_def
      ERROR_MESSAGE_ARCHIVED_REPO_def Let_def split: option.splits if_splits)

lemma endCollection_all_ok:
  "endCollection all_ok eol (c, fs) =
     Exited (normalizeResult c,
       fs @ [(''./data/raw-data.json'', stringify_records (normalizedData (normalizeResult c))),
             (''./data/raw-data.csv'', stringify_string (JSONtoCSV eol (normalizedData (normalizeResult c))))])"
  by (simp add: endCollection_def all_ok_def Let_def DATA_FOLDER_def ARTIFACT_FILE_NAME_def)

lemma endCollection_normalizes:
  "normalizedData (fst (final_state (endCollection ex eol (c, fs)))) = normalizedData (normalizeResult c)"
  by (simp add: endCollection_def final_state_def Let_def)

lemma startCollection_organizations:
  assumes "(case enterprise c of
              Some e \<Rightarrow> if e \<noteq> [] then egw e = Resolved ls else ls = organizations c
            | None \<Rightarrow> ls = organizations c)"
  shows "startCollection gw egw ex1 ex2 eol fuel (c, fs) =
     (case collectAll gw fuel (c\<lparr>organizations := ls\<rparr>) ls of
        None \<Rightarrow> None
      | Some (Returned c2) \<Rightarrow>
          Some (case endCollection ex1 eol (c2, fs) of
                  Threw err s2 \<Rightarrow> endCollection ex2 eol s2
                | other \<Rightarrow> other)
      | Some (Threw err c2) \<Rightarrow> Some (endCollection ex1 eol (c2, fs))
      | Some (Exited c2) \<Rightarrow> Some (Exited (c2, fs)))"
  using assms
  by (auto simp: startCollection_def split: option.splits completion.splits if_splits)

subsection \<open>More fuel does not change a result\<close>

lemma requestOrganizationData_mono:
  "requestOrganizationData gw fuel organization cc rc = Some x \<Longrightarrow>
     requestOrganizationData gw (fuel + k) organization cc rc = Some x"
proof (induction fuel arbitrary: cc rc)
  case 0
  then show ?case by simp
next
  case (Suc fuel)
  then show ?case
    by (auto split: response.splits list.splits if_splits)
qed

lemma collectData_mono:
  "collectData gw fuel c organization cc rc = Some x \<Longrightarrow>
     collectData gw (fuel + k) c organization cc rc = Some x"
proof (induction fuel arbitrary: c cc rc)
  case 0
  then show ?case by simp
next
  case (Suc fuel)
  from Suc.prems obtain y where
    y: "requestOrganizationData gw (Suc fuel) organization cc rc = Some y"
    by (cases "requestOrganizationData gw (Suc fuel) organization cc rc") auto
  from requestOrganizationData_mono [OF y, of k]
  have y': "requestOrganizationData gw (Suc (fuel + k)) organization cc rc = Some y" by simp
  have e: "collectData gw (Suc n) c organization cc rc =
     (case y of
        Inl e \<Rightarrow> Some (Threw e c)
      | Inr None \<Rightarrow> Some (Returned c)
      | Inr (Some data) \<Rightarrow>
          (case nodes (repositories data) of
             [] \<Rightarrow> Some (Returned c)
           | currentRepository # _ \<Rightarrow>
               (case mergePage (stored_result c organization) data currentRepository rc of
                  Inl e \<Rightarrow> Some (Threw e c)
                | Inr (repositoriesInResult, result') \<Rightarrow>
                    (let c' = c\<lparr>result := obj_set (result c) (key_of organization) (Some result')\<rparr>
                     in case nextCall result' repositoriesInResult
                               (pageInfo (collaborators currentRepository))
                               (repositoriesPageInfo (repositories data)) of
                          Inl e \<Rightarrow> Some (Threw e c')
                        | Inr (Some (cc, rc)) \<Rightarrow> collectData gw n c' organization cc rc
                        | Inr None \<Rightarrow> Some (Returned c')))))"
    if "requestOrganizationData gw (Suc n) organization cc rc = Some y" for n
    unfolding collectData.simps that by simp
  from Suc.prems Suc.IH show ?case
    unfolding add_Suc e [OF y] e [OF y']
    by (auto simp: Let_def split: sum.splits option.splits list.splits prod.splits)
qed

subsection \<open>The first page, the pages of the reference Gateway, the tabular text\<close>

lemma mergePage_first_call:
  "nodes (repositories data) = [cur] \<Longrightarrow>
     mergePage None data cur rc =
       Inr (1, set_nodes data [set_edges cur (edges (collaborators cur) @ edges (collaborators cur))])"
  by (simp add: mergePage_def)

lemma paged_gateway_page:
  assumes "map_of db l = Some repos" "position rc < length repos"
    "\<not> src_archived (repos ! position rc)"
  shows "paged_gateway psize db (Some l) cc rc =
     Resolved (Some \<lparr>repositories =
       \<lparr>nodes =
          [\<lparr>name = src_name (repos ! position rc),
            collaborators =
              \<lparr>edges = take psize (drop (position cc) (src_collaborators (repos ! position rc))),
               pageInfo =
                 \<lparr>hasNextPage = position cc + psize < length (src_collaborators (repos ! position rc)),
                  endCursor =
                    (if position cc < length (src_collaborators (repos ! position rc))
                     then cursor_at (min (position cc + psize)
                            (length (src_collaborators (repos ! position rc))))
                     else None)\<rparr>\<rparr>,
            previousCursor = None\<rparr>],
        repositoriesPageInfo =
          \<lparr>hasNextPage = position rc + 1 < length repos, endCursor = cursor_at (position rc + 1)\<rparr>\<rparr>\<rparr>)"
  using assms by (simp add: paged_gateway_def Let_def)

lemma position_cursor_at: "position (cursor_at k) = k"
  by (simp add: position_def cursor_at_def)

lemma nextCall_after_continuation:
  assumes "nodes (repositories acc) \<noteq> []" "hasNextPage ci"
  shows "nextCall
     (set_nodes acc ((nodes (repositories acc))[length (nodes (repositories acc)) - 1 := x]))
     (length (nodes (repositories acc))) ci ri =
     Inr (Some (endCursor ci,
       if length (nodes (repositories acc)) = 1 then None
       else previousCursor (nodes (repositories acc) ! (length (nodes (repositories acc)) - 2))))"
proof -
  let ?ns = "nodes (repositories acc)"
  have l: "0 < length ?ns" using assms(1) by simp
  have "length ?ns - 2 \<noteq> length ?ns - 1" if "length ?ns \<noteq> 1" using that l by arith
  moreover have "2 \<le> length ?ns" if "length ?ns \<noteq> 1" using that l by arith
  moreover have "length ?ns - 2 < length ?ns" using l by arith
  ultimately show ?thesis
    using assms(2) by (auto simp: nextCall_def nodes_set_nodes)
qed

lemma forEach_appends:
  assumes "\<And>x s. \<exists>t. f x s = s @ t"
  shows "\<exists>t. forEach xs f s = s @ t"
proof (induction xs arbitrary: s)
  case Nil
  show ?case by (simp add: forEach_Nil)
next
  case (Cons x xs)
  from assms obtain t where t: "f x s = s @ t" by blast
  from Cons.IH [of "s @ t"] obtain u where "forEach xs f (s @ t) = (s @ t) @ u" by blast
  then show ?case by (simp add: forEach_Cons t)
qed

lemma csv_record_appends: "\<exists>t. csv_record r csv = csv @ t"
  unfolding csv_record_def
  by (rule forEach_appends) (simp add: Let_def)

lemma JSONtoCSV_starts_with_header: "\<exists>t. JSONtoCSV eol json = csv_header @ t"
proof -
  have "\<exists>t. (\<lambda>r csv. csv_record r csv @ eol) r csv = csv @ t" for r csv
    using csv_record_appends [of r csv] by auto
  from forEach_appends [of "\<lambda>r csv. csv_record r csv @ eol", OF this]
  obtain t where "forEach json (\<lambda>r csv. csv_record r csv @ eol) (join '','' csv_keys @ eol) =
      (join '','' csv_keys @ eol) @ t"
    by blast
  then show ?thesis
    by (simp add: JSONtoCSV_def csv_keys_def csv_header_def)
qed

lemma stringify_string_differs: "stringify_string (JSONtoCSV eol json) \<noteq> JSONtoCSV eol json"
proof -
  obtain t where t: "JSONtoCSV eol json = csv_header @ t"
    using JSONtoCSV_starts_with_header by blast
  have "hd (stringify_string (JSONtoCSV eol json)) = CHR 0x22"
    by (simp add: stringify_string_def)
  moreover have "hd (JSONtoCSV eol json) = CHR ''e''"
    by (simp add: t csv_header_def)
  ultimately show ?thesis by auto
qed

subsection \<open>The run over \<open>ghost\<close> and \<open>beta\<close>\<close>

lemma beta_first_request:
  "paged_gateway 1 beta_db (Some ''beta'') None None =
     Resolved (Some \<lparr>repositories =
       \<lparr>nodes = [repo_entry ''r1'' [mk_edge ''Alice'' ''alice'' ''admin''] False (Some ''c'') None],
        repositoriesPageInfo = \<lparr>hasNextPage = True, endCursor = Some ''c''\<rparr>\<rparr>\<rparr>)"
  by (simp add: beta_db_def run_defs)

lemma beta_start:
  assumes "stored_result c (Some ''beta'') = None"
  shows "collectData (paged_gateway 1 beta_db) (Suc fuel) c (Some ''beta'') None None =
     collectData (paged_gateway 1 beta_db) fuel
       (c\<lparr>result := obj_set (result c) (key_of (Some ''beta'')) (Some beta_before)\<rparr>)
       (Some ''beta'') None (Some ''c'')"
proof (rule collectData_step [where gw = "paged_gateway 1 beta_db" and organization = "Some ''beta''"
      and cc = None and rc = None, OF beta_first_request])
  show "nodes (repositories \<lparr>repositories =
       \<lparr>nodes = [repo_entry ''r1'' [mk_edge ''Alice'' ''alice'' ''admin''] False (Some ''c'') None],
        repositoriesPageInfo = \<lparr>hasNextPage = True, endCursor = Some ''c''\<rparr>\<rparr>\<rparr>) =
      repo_entry ''r1'' [mk_edge ''Alice'' ''alice'' ''admin''] False (Some ''c'') None # []"
    by simp
  show "mergePage (stored_result c (Some ''beta''))
      \<lparr>repositories =
       \<lparr>nodes = [repo_entry ''r1'' [mk_edge ''Alice'' ''alice'' ''admin''] False (Some ''c'') None],
        repositoriesPageInfo = \<lparr>hasNextPage = True, endCursor = Some ''c''\<rparr>\<rparr>\<rparr>
      (repo_entry ''r1'' [mk_edge ''Alice'' ''alice'' ''admin''] False (Some ''c'') None) None =
      Inr (1, beta_before)"
    unfolding assms
    by (simp add: mergePage_def beta_before_def repo_entry_def set_nodes_def set_edges_def)
  show "nextCall beta_before 1
      (pageInfo (collaborators (repo_entry ''r1'' [mk_edge ''Alice'' ''alice'' ''admin''] False (Some ''c'') None)))
      (repositoriesPageInfo (repositories \<lparr>repositories =
       \<lparr>nodes = [repo_entry ''r1'' [mk_edge ''Alice'' ''alice'' ''admin''] False (Some ''c'') None],
        repositoriesPageInfo = \<lparr>hasNextPage = True, endCursor = Some ''c''\<rparr>\<rparr>\<rparr>)) =
      Inr (Some (None, Some ''c''))"
    by (simp add: nextCall_def repo_entry_def)
qed

lemma beta_never_returns:
  assumes "stored_result c (Some ''beta'') = None"
  shows "collectData (paged_gateway 1 beta_db) fuel c (Some ''beta'') None None = None"
proof (cases fuel)
  case 0
  then show ?thesis by simp
next
  case (Suc n)
  let ?c = "c\<lparr>result := obj_set (result c) (key_of (Some ''beta'')) (Some beta_before)\<rparr>"
  have s: "stored_result ?c (Some ''beta'') = Some beta_before"
    by (rule stored_result_update)
  have b: "nodes (repositories beta_before) \<noteq> []"
    "name (last (nodes (repositories beta_before))) = ''r1''"
    "length (nodes (repositories beta_before)) = 1"
    by (simp_all add: beta_before_def repo_entry_def)
  from beta_loop [OF s b(1), of n] b(2,3)
  have "collectData (paged_gateway 1 beta_db) n ?c (Some ''beta'') None (Some ''c'') = None"
    by blast
  then show ?thesis unfolding Suc beta_start [OF assms] .
qed

lemma ghost_no_data: "no_data (paged_gateway 1 beta_db (Some ''ghost'') None None)"
  by (simp add: no_data_def paged_gateway_def beta_db_def no_such_organization_def
      ERROR_MESSAGE_ARCHIVED_REPO_def)




lemma beta_loop_never_returns:
  "collectAll (paged_gateway 1 beta_db) fuel c [Some ''ghost'', Some ''beta''] = None"
proof (cases fuel)
  case 0
  then show ?thesis by simp
next
  case (Suc n)
  let ?c = "c\<lparr>result := obj_set (result c) (key_of (Some ''ghost'')) None\<rparr>"
  let ?d = "?c\<lparr>result := obj_set (result ?c) (key_of (Some ''beta'')) None\<rparr>"
  have "collectData (paged_gateway 1 beta_db) (Suc n) ?d (Some ''beta'') None None = None"
    by (rule beta_never_returns) (rule stored_result_reset)
  then have "collectAll (paged_gateway 1 beta_db) (Suc n) ?c [Some ''beta''] = None"
    by (simp only: collectAll.simps option.case)
  then show ?thesis
    unfolding Suc
      collectAll_no_data [where gw = "paged_gateway 1 beta_db" and l = "Some ''ghost''", OF ghost_no_data] .
qed


section \<open>Properties\<close>

subsection \<open>C1: the collaborators accumulated for a repository\<close>

text \<open>
  C1 says that the collaborators accumulated for a repository are the concatenation of
  the pages the Gateway returned for it, and that the scenario \<open>acme\<close> flattens to three
  records. On the first call for an organization \<open>result\<close> is the response itself, its last
  entry is the repository of the page, and the page's edges are appended to themselves:
  the traversal of \<open>acme\<close> ends with Alice twice, and the normalizer emits four records.
  The same happens to the first page of every organization.
\<close>

theorem acme_first_page_twice:
  "collectAll (paged_gateway 1 acme_db) 3 (new_collector [Some ''acme'']) [Some ''acme''] =
     Some (Returned acme_state)
   \<and> normalizedData (normalizeResult acme_state) =
     [[JUndefined, JString ''acme'', JString ''r1'', JString ''Alice'', JString ''alice'', JString ''admin''],
      [JUndefined, JString ''acme'', JString ''r1'', JString ''Alice'', JString ''alice'', JString ''admin''],
      [JUndefined, JString ''acme'', JString ''r1'', JString ''Bob'', JString ''bob'', JString ''read''],
      [JUndefined, JString ''acme'', JString ''r2'', JString ''Carol'', JString ''carol'', JString ''write'']]
   \<and> mergePage None \<lparr>repositories = \<lparr>nodes = [cur], repositoriesPageInfo = info\<rparr>\<rparr> cur rc =
       Inr (1, \<lparr>repositories =
         \<lparr>nodes = [set_edges cur (edges (collaborators cur) @ edges (collaborators cur))],
          repositoriesPageInfo = info\<rparr>\<rparr>)"
  using acme_collectAll acme_records
    mergePage_first_call [of "\<lparr>repositories = \<lparr>nodes = [cur], repositoriesPageInfo = info\<rparr>\<rparr>" cur rc]
  by (simp add: set_nodes_def)

subsection \<open>C2: the cursors of the next call\<close>

text \<open>
  C2 says that, when the merged page leaves the current repository with a next
  collaborator page, the next call uses the collaborator end cursor with the repository
  cursor stored on the entry preceding the current one, also when the page has just
  appended the repository. \<open>repositoriesInResult\<close> is the length before the merge, so
  after an append the code reads the entry two places before the current one, or takes
  \<open>null\<close> when the appended repository is the second. In organization \<open>beta\<close>, the page that
  starts \<open>r2\<close> is merged into the sequence \<open>r1\<close>, \<open>r2\<close>, where \<open>r1\<close> holds the cursor
  \<open>c\<close>; the next call uses the repository cursor \<open>null\<close>, for which the Gateway returns
  \<open>r1\<close> again, not \<open>r2\<close>. (When the page continued the last entry, the cursor is the
  one the claim names: \<open>nextCall_after_continuation\<close>.)
\<close>

theorem next_call_after_append:
  "paged_gateway 1 beta_db (Some ''beta'') None (Some ''c'') = Resolved (Some beta_page)
   \<and> mergePage (Some beta_before) beta_page beta_r2 (Some ''c'') = Inr (1, beta_after)
   \<and> map name (nodes (repositories beta_after)) = [''r1'', ''r2'']
   \<and> map previousCursor (nodes (repositories beta_after)) = [Some ''c'', None]
   \<and> nextCall beta_after 1 (pageInfo (collaborators beta_r2))
        (repositoriesPageInfo (repositories beta_page)) = Inr (Some (Some ''c'', None))
   \<and> paged_gateway 1 beta_db (Some ''beta'') (Some ''c'') None =
       Resolved (Some \<lparr>repositories =
         \<lparr>nodes = [repo_entry ''r1'' [] False None None],
          repositoriesPageInfo = \<lparr>hasNextPage = True, endCursor = Some ''c''\<rparr>\<rparr>\<rparr>)"
  by (simp add: beta_second_request)
     (simp add: beta_db_def beta_before_def beta_after_def beta_page_def beta_r2_def run_defs)

subsection \<open>C3: the forced skip of a repository that cannot be queried\<close>

text \<open>
  C3 as stated classifies the error by the message "must have administrative access to
  view collaborators of an archived repository". The code compares the message with
  \<open>ERROR_MESSAGE_ARCHIVED_REPO\<close>, which is another text: a rejection that carries the
  message of the specification is not retried, and the request returns \<open>null\<close> where the
  retry would have returned the page of \<open>r3\<close>.
\<close>

theorem spec_message_not_retried_counterexample:
  "respelled_gateway (Some ''gamma'') None (Some ''c'') =
     Rejected (archived_error\<lparr>message := spec_message\<rparr>)
   \<and> endCursor (failed_pageInfo (error_data (archived_error\<lparr>message := spec_message\<rparr>))) = Some ''cc''
   \<and> requestOrganizationData respelled_gateway 2 (Some ''gamma'') None (Some ''c'') = Some (Inr None)
   \<and> requestOrganizationData respelled_gateway 1 (Some ''gamma'') None (Some ''cc'') =
       Some (Inr (Some gamma_r3_page))
   \<and> requestOrganizationData respelled_gateway 2 (Some ''gamma'') None (Some ''c'') \<noteq>
       requestOrganizationData respelled_gateway 1 (Some ''gamma'') None (Some ''cc'')"
proof -
  have "requestOrganizationData respelled_gateway 2 (Some ''gamma'') None (Some ''c'') = Some (Inr None)"
    by (simp add: numeral_2_eq_2 gamma_respelled spec_message_differs)
  then show ?thesis
    using gamma_respelled gamma_respelled_retried by (simp add: archived_error_def)
qed

text \<open>
  C3, amended: when a request is rejected with the message
  \<open>ERROR_MESSAGE_ARCHIVED_REPO\<close> ("Must have push access to view repository
  collaborators.") and partial data that names the offending repository,
  \<open>requestOrganizationData\<close> returns what one re-issued request returns, with the
  collaborator cursor \<open>null\<close> and the repository cursor the end cursor of the partial page;
  nothing of the rejected request reaches the merge. Any other rejection is not retried:
  the request returns \<open>null\<close> and \<open>collectData\<close> returns with the collector unchanged.
\<close>

theorem archived_repository_retry:
  "gw organization cc rc = Rejected e \<longrightarrow>
     (message e = ERROR_MESSAGE_ARCHIVED_REPO \<and> failed_nodes (error_data e) \<noteq> [] \<longrightarrow>
        requestOrganizationData gw (Suc fuel) organization cc rc =
          requestOrganizationData gw fuel organization None (endCursor (failed_pageInfo (error_data e))))
     \<and> (message e \<noteq> ERROR_MESSAGE_ARCHIVED_REPO \<longrightarrow>
          requestOrganizationData gw (Suc fuel) organization cc rc = Some (Inr None)
          \<and> collectData gw (Suc fuel) c organization cc rc = Some (Returned c))"
  by (auto split: list.splits)

theorem archived_repository_retry_witness:
  "paged_gateway 1 archived_db (Some ''gamma'') None (Some ''c'') = Rejected archived_error
   \<and> message archived_error = ERROR_MESSAGE_ARCHIVED_REPO
   \<and> failed_nodes (error_data archived_error) \<noteq> []
   \<and> requestOrganizationData (paged_gateway 1 archived_db) 2 (Some ''gamma'') None (Some ''c'') =
       Some (Inr (Some gamma_r3_page))
   \<and> collectAll (paged_gateway 1 archived_db) 3 (new_collector [Some ''gamma'']) [Some ''gamma''] =
       Some (Returned gamma_state)
   \<and> map (\<lambda>r. r ! 2) (normalizedData (normalizeResult gamma_state)) =
       [JString ''r1'', JString ''r1'', JString ''r3'']
   \<and> respelled_gateway (Some ''gamma'') None (Some ''c'') =
       Rejected (archived_error\<lparr>message := spec_message\<rparr>)
   \<and> message (archived_error\<lparr>message := spec_message\<rparr>) \<noteq> ERROR_MESSAGE_ARCHIVED_REPO
   \<and> collectData respelled_gateway 1 gamma_state (Some ''gamma'') None (Some ''c'') =
       Some (Returned gamma_state)"
proof -
  have h: "message archived_error = ERROR_MESSAGE_ARCHIVED_REPO"
    "failed_nodes (error_data archived_error) \<noteq> []"
    "endCursor (failed_pageInfo (error_data archived_error)) = Some ''cc''"
    by (simp_all add: archived_error_def)
  from archived_repository_retry [of "paged_gateway 1 archived_db" "Some ''gamma''" None "Some ''c''"
      archived_error 1] gamma_rejected h
  have a: "requestOrganizationData (paged_gateway 1 archived_db) (Suc 1) (Some ''gamma'') None (Some ''c'') =
      requestOrganizationData (paged_gateway 1 archived_db) 1 (Some ''gamma'') None (Some ''cc'')"
    by simp
  have "Suc 1 = 2" by simp
  with a have a': "requestOrganizationData (paged_gateway 1 archived_db) 2 (Some ''gamma'') None (Some ''c'') =
       Some (Inr (Some gamma_r3_page))"
    using gamma_retried by (simp only:)
  have m: "message (archived_error\<lparr>message := spec_message\<rparr>) \<noteq> ERROR_MESSAGE_ARCHIVED_REPO"
    by (simp add: spec_message_differs)
  from archived_repository_retry [of respelled_gateway "Some ''gamma''" None "Some ''c''"
      "archived_error\<lparr>message := spec_message\<rparr>" 0 gamma_state] gamma_respelled m
  have b: "collectData respelled_gateway (Suc 0) gamma_state (Some ''gamma'') None (Some ''c'') =
       Some (Returned gamma_state)"
    by blast
  have r: "map (\<lambda>r. r ! 2) (normalizedData (normalizeResult gamma_state)) =
       [JString ''r1'', JString ''r1'', JString ''r3'']"
    by (simp add: normalizeResult_eq keyed_records_def org_records_def accumulator_of_def obj_keys_def
      is_array_index_def is_digit_def flat_record_def gamma_state_def run_defs)
  show ?thesis
    using gamma_rejected h(1,2) a' gamma_collectAll r gamma_respelled m b by simp
qed

subsection \<open>C4: a failure of one organization is contained\<close>

text \<open>
  C4 says that a failure of one organization (a rejection other than the classified one, or
  a result without repositories) is contained, that the loop proceeds to the next
  organization, and that in all cases the run then normalizes and exports what was
  collected. The failure is contained: \<open>collectData\<close> returns the collector as it is and
  the loop goes on. But the run does not export in all cases: for the enterprise \<open>corp\<close>
  with the organizations \<open>ghost\<close> and \<open>beta\<close>, the request for \<open>ghost\<close> is rejected, the loop
  goes on to \<open>beta\<close>, whose traversal never returns, and neither the loop nor
  \<open>startCollection\<close> returns, whatever the fuel: \<open>endCollection\<close> is never reached.
\<close>

theorem contained_failure_then_no_export:
  "no_data (paged_gateway 1 beta_db (Some ''ghost'') None None)
   \<and> collectData (paged_gateway 1 beta_db) (Suc fuel) c (Some ''ghost'') None None = Some (Returned c)
   \<and> collectAll (paged_gateway 1 beta_db) (Suc fuel) c [Some ''ghost'', Some ''beta''] =
       collectAll (paged_gateway 1 beta_db) (Suc fuel)
         (c\<lparr>result := obj_set (result c) (key_of (Some ''ghost'')) None\<rparr>) [Some ''beta'']
   \<and> collectAll (paged_gateway 1 beta_db) fuel c [Some ''ghost'', Some ''beta''] = None
   \<and> startCollection (paged_gateway 1 beta_db) corp_organizations ex1 ex2 eol fuel
        (corp_collector, fs) = None"
proof -
  have e: "(case enterprise corp_collector of
              Some e \<Rightarrow> if e \<noteq> [] then corp_organizations e = Resolved [Some ''ghost'', Some ''beta'']
                else [Some ''ghost'', Some ''beta''] = organizations corp_collector
            | None \<Rightarrow> [Some ''ghost'', Some ''beta''] = organizations corp_collector)"
    by (simp add: corp_collector_def corp_organizations_def)
  have "startCollection (paged_gateway 1 beta_db) corp_organizations ex1 ex2 eol fuel
        (corp_collector, fs) = None"
    unfolding startCollection_organizations [OF e] beta_loop_never_returns by simp
  then show ?thesis
    using ghost_no_data
      collectData_no_data [where gw = "paged_gateway 1 beta_db" and organization = "Some ''ghost''"
        and cc = None and rc = None and fuel = fuel and c = c, OF ghost_no_data]
      collectAll_no_data [where gw = "paged_gateway 1 beta_db" and l = "Some ''ghost''"
        and fuel = fuel and c = c and ls = "[Some ''beta'']", OF ghost_no_data]
      beta_loop_never_returns [of fuel c]
    by (simp only: simp_thms)
qed

subsection \<open>C5: the repository sequence\<close>



subsection \<open>C6: order of the normalized records\<close>

text \<open>
  C6 as stated says that the normalizer emits the organizations in insertion order. It
  fails for a login that is an array index: after processing \<open>zeta\<close> and then \<open>7\<close>,
  \<open>Object.keys\<close> gives \<open>7\<close> first, and the records of \<open>7\<close> come before those of \<open>zeta\<close>.
\<close>

theorem normalizeResult_insertion_order_counterexample:
  "collectAll (paged_gateway 1 numeric_db) 1 (new_collector [Some ''zeta'', Some ''7''])
     [Some ''zeta'', Some ''7''] = Some (Returned numeric_state)
   \<and> distinct (map fst (result numeric_state))
   \<and> normalizedData (normalizeResult numeric_state) \<noteq>
       normalizedData numeric_state @ nested_records (enterprise numeric_state) (result numeric_state)"
proof -
  have "normalizedData (normalizeResult numeric_state) \<noteq>
       normalizedData numeric_state @ nested_records (enterprise numeric_state) (result numeric_state)"
    unfolding normalizeResult_eq numeric_keys
    by (simp add: keyed_records_def nested_records_def org_records_def accumulator_of_def
        flat_record_def numeric_state_def run_defs)
  moreover have "distinct (map fst (result numeric_state))"
    by (simp add: numeric_state_def new_collector_def)
  ultimately show ?thesis using numeric_collectAll by simp
qed

text \<open>
  C6, amended: \<open>normalizeResult\<close> appends, for every key of the result object in the order of
  \<open>Object.keys\<close>, the records of that key's accumulator in nesting order (repositories in
  sequence order, then collaborator edges in sequence order), exactly one record per edge;
  a \<open>null\<close> accumulator contributes no record. When no login is an array index, the order
  of the organizations is their insertion order.
\<close>

theorem normalizeResult_order:
  "normalizedData (normalizeResult c) =
     normalizedData c @ keyed_records (enterprise c) (result c) (obj_keys (result c))
   \<and> (distinct (map fst (result c)) \<and> list_all (\<lambda>k. \<not> is_array_index k) (map fst (result c))
        \<longrightarrow> normalizedData (normalizeResult c) =
              normalizedData c @ nested_records (enterprise c) (result c))
   \<and> org_records ent k None = []
   \<and> length (org_records ent k (Some org)) =
       sum_list (map (\<lambda>r. length (edges (collaborators r))) (nodes (repositories org)))"
proof -
  have a: "normalizedData (normalizeResult c) =
     normalizedData c @ keyed_records (enterprise c) (result c) (obj_keys (result c))"
    by (simp add: normalizeResult_eq)
  have b: "normalizedData (normalizeResult c) =
              normalizedData c @ nested_records (enterprise c) (result c)"
    if "distinct (map fst (result c))" "list_all (\<lambda>k. \<not> is_array_index k) (map fst (result c))"
    using that by (simp add: a obj_keys_plain keyed_records_distinct)
  have c: "org_records ent k None = []"
    by (simp add: org_records_def)
  have d: "length (org_records ent k (Some org)) =
       sum_list (map (\<lambda>r. length (edges (collaborators r))) (nodes (repositories org)))"
    by (simp add: org_records_def length_concat comp_def)
  show ?thesis using a b c d by blast
qed

theorem normalizeResult_order_witness:
  "distinct (map fst (result acme_state))
   \<and> list_all (\<lambda>k. \<not> is_array_index k) (map fst (result acme_state))
   \<and> normalizedData (normalizeResult acme_state) =
       nested_records None (result acme_state)
   \<and> length (nested_records None (result acme_state)) = 4"
proof -
  have h: "distinct (map fst (result acme_state))
      \<and> list_all (\<lambda>k. \<not> is_array_index k) (map fst (result acme_state))"
    by (simp add: acme_state_def new_collector_def is_array_index_def is_digit_def)
  have e: "normalizedData acme_state = []" "enterprise acme_state = None"
    by (simp_all add: acme_state_def new_collector_def)
  have n: "length (nested_records None (result acme_state)) = 4"
    by (simp add: nested_records_def org_records_def acme_state_def new_collector_def repo_entry_def)
  from normalizeResult_order [of acme_state] h
  have "normalizedData (normalizeResult acme_state) =
      normalizedData acme_state @ nested_records (enterprise acme_state) (result acme_state)"
    by blast
  then show ?thesis using h e n by simp
qed

subsection \<open>C7: termination of the traversal\<close>

text \<open>
  C7 says that the traversal returns for every organization over a well-behaved Gateway.
  Over the reference Gateway with pages of one collaborator, the traversal of \<open>beta\<close>
  (\<open>r1\<close> with one collaborator, \<open>r2\<close> with two) never returns, whatever the fuel: after the
  first page of \<open>r2\<close> the engine asks for the first repository again, appends \<open>r1\<close>, moves
  on to \<open>r2\<close>, and so on, the sequence growing by two entries each round. The loop of
  \<open>startCollection\<close> and the run do not return either.
\<close>

theorem beta_traversal_never_returns:
  "collectData (paged_gateway 1 beta_db) fuel
     ((new_collector ls)\<lparr>result := [(''beta'', None)]\<rparr>) (Some ''beta'') None None = None
   \<and> collectAll (paged_gateway 1 beta_db) fuel (new_collector [Some ''beta'']) [Some ''beta''] = None
   \<and> startCollection (paged_gateway 1 beta_db) egw ex1 ex2 eol fuel
        (new_collector [Some ''beta''], fs) = None"
proof -
  have a: "collectData (paged_gateway 1 beta_db) fuel
     ((new_collector ls)\<lparr>result := [(''beta'', None)]\<rparr>) (Some ''beta'') None None = None" for ls
  proof (cases fuel)
    case 0
    then show ?thesis by simp
  next
    case (Suc n)
    let ?c = "(new_collector ls)\<lparr>result := [(''beta'', Some beta_before)]\<rparr>"
    have s: "stored_result ?c (Some ''beta'') = Some beta_before"
      by (simp add: stored_result_def obj_get_def key_of_def)
    have n: "nodes (repositories beta_before) \<noteq> []"
      "name (last (nodes (repositories beta_before))) = ''r1''"
      "length (nodes (repositories beta_before)) = 1"
      by (simp_all add: beta_before_def repo_entry_def)
    from beta_loop [OF s n(1), of n] n(2,3)
    have "collectData (paged_gateway 1 beta_db) n ?c (Some ''beta'') None (Some ''c'') = None"
      by blast
    then show ?thesis unfolding Suc beta_first_call by simp
  qed
  have b: "collectAll (paged_gateway 1 beta_db) fuel (new_collector [Some ''beta'']) [Some ''beta''] = None"
  proof -
    have "(new_collector [Some ''beta''])\<lparr>result :=
        obj_set (result (new_collector [Some ''beta''])) (key_of (Some ''beta'')) None\<rparr> =
      (new_collector [Some ''beta''])\<lparr>result := [(''beta'', None)]\<rparr>"
      by (simp add: new_collector_def key_of_def)
    then show ?thesis using a [of "[Some ''beta'']"] by simp
  qed
  have "organizations (new_collector [Some ''beta'']) = [Some ''beta'']"
    "enterprise (new_collector [Some ''beta'']) = None"
    by (simp_all add: new_collector_def)
  then have "startCollection (paged_gateway 1 beta_db) egw ex1 ex2 eol fuel
        (new_collector [Some ''beta''], fs) = None"
    using b by (simp add: startCollection_def)
  then show ?thesis using a b by simp
qed

subsection \<open>C8: the export files\<close>

text \<open>
  C8 says that the tabular file holds the comma-separated text, its first line the header.
  \<open>endCollection\<close> writes \<open>JSON.stringify(csv)\<close> instead of \<open>csv\<close>: the file holds one
  JSON string literal. In the run for \<open>empty-org\<close> the text is the header and a newline;
  the file starts with a double quote and ends with a backslash, the letter n and a
  double quote. Whatever the records, an export that completes writes to the tabular file
  a content that is not the tabular text.
\<close>

theorem csv_file_is_json_text:
  "startCollection (paged_gateway 1 empty_db) (\<lambda>e. Resolved []) all_ok all_ok [CHR 0x0A] 1
     (new_collector [Some ''empty-org''], []) =
   Some (Exited ((new_collector [Some ''empty-org''])\<lparr>result := [(''empty-org'', None)]\<rparr>,
     [(''./data/raw-data.json'', ''[]''),
      (''./data/raw-data.csv'', CHR 0x22 # csv_header @ [CHR 0x5C, CHR ''n'', CHR 0x22])]))
   \<and> JSONtoCSV [CHR 0x0A] [] = csv_header @ [CHR 0x0A]
   \<and> CHR 0x22 # csv_header @ [CHR 0x5C, CHR ''n'', CHR 0x22] \<noteq> JSONtoCSV [CHR 0x0A] []
   \<and> endCollection all_ok eol (c, fs) =
       Exited (normalizeResult c,
         fs @ [(''./data/raw-data.json'', stringify_records (normalizedData (normalizeResult c))),
               (''./data/raw-data.csv'',
                stringify_string (JSONtoCSV eol (normalizedData (normalizeResult c))))])
   \<and> stringify_string (JSONtoCSV eol json) \<noteq> JSONtoCSV eol json"
proof -
  have o: "organizations (new_collector [Some ''empty-org'']) = [Some ''empty-org'']"
    "enterprise (new_collector [Some ''empty-org'']) = None"
    by (simp_all add: new_collector_def)
  have "organizations (new_collector [Some ''empty-org'']) = [Some ''empty-org'']"
    by (simp add: new_collector_def)
  with empty_collectAll
  have l: "collectAll (paged_gateway 1 empty_db) 1 (new_collector [Some ''empty-org''])
      (organizations (new_collector [Some ''empty-org''])) =
     Some (Returned ((new_collector [Some ''empty-org''])\<lparr>result := [(''empty-org'', None)]\<rparr>))"
    by simp
  have "startCollection (paged_gateway 1 empty_db) (\<lambda>e. Resolved []) all_ok all_ok [CHR 0x0A] 1
     (new_collector [Some ''empty-org''], []) =
   Some (Exited ((new_collector [Some ''empty-org''])\<lparr>result := [(''empty-org'', None)]\<rparr>,
     [(''./data/raw-data.json'', ''[]''),
      (''./data/raw-data.csv'', CHR 0x22 # csv_header @ [CHR 0x5C, CHR ''n'', CHR 0x22])]))"
    unfolding startCollection_returned [OF o(2) l] endCollection_null by simp
  moreover have "CHR 0x22 # csv_header @ [CHR 0x5C, CHR ''n'', CHR 0x22] \<noteq> JSONtoCSV [CHR 0x0A] []"
    by (simp add: JSONtoCSV_Nil csv_header_def)
  ultimately show ?thesis
    using endCollection_all_ok [of eol c fs] stringify_string_differs [of eol json]
    by (simp add: JSONtoCSV_Nil)
qed

subsection \<open>C9: neither an organization nor an enterprise\<close>

text \<open>
  C9: when neither selector is given, \<open>validateInput\<close> does not fail; the collector is
  constructed with the single organization entry whose login is \<open>undefined\<close>; \<open>main\<close> goes
  on to \<open>startCollection\<close>, which runs \<open>collectData\<close> (and so the request to the Gateway) for
  the login \<open>undefined\<close> under the key \<open>undefined\<close>, and then exports.
\<close>

theorem constructor_without_selector:
  "\<not> validateInput None None
   \<and> constructor token None None opts =
       Constructed \<lparr>organizations = [None], enterprise = None, options = opts,
                    result = (case data_opt opts of Some d \<Rightarrow> d | None \<Rightarrow> []),
                    normalizedData = []\<rparr>
   \<and> (input_organization env = [] \<and> env_ORGANIZATION env = None
        \<and> input_enterprise env = [] \<and> env_ENTERPRISE env = None
      \<longrightarrow> main gw egw ex1 ex2 eol fuel env =
            map_option Run (startCollection gw egw ex1 ex2 eol fuel
              (\<lparr>organizations = [None], enterprise = None,
                options = \<lparr>repository_opt = env_GITHUB_REPOSITORY env,
                           postToIssue = or_env (input_issue env) (env_ISSUE env),
                           data_opt = None\<rparr>,
                result = [], normalizedData = []\<rparr>, [])))
   \<and> (organizations c = [None] \<and> enterprise c = None
      \<longrightarrow> startCollection gw egw ex1 ex2 eol fuel (c, fs) =
            (case collectData gw fuel (c\<lparr>result := obj_set (result c) ''undefined'' None\<rparr>)
                    None None None of
               None \<Rightarrow> None
             | Some (Returned c2) \<Rightarrow>
                 Some (case endCollection ex1 eol (c2, fs) of
                         Threw err s2 \<Rightarrow> endCollection ex2 eol s2
                       | other \<Rightarrow> other)
             | Some (Threw err c2) \<Rightarrow> Some (endCollection ex1 eol (c2, fs))
             | Some (Exited c2) \<Rightarrow> Some (Exited (c2, fs))))"
proof -
  have a: "\<not> validateInput None None"
    by (simp add: validateInput_def truthy_def)
  have b: "constructor token None None opts =
       Constructed \<lparr>organizations = [None], enterprise = None, options = opts,
                    result = (case data_opt opts of Some d \<Rightarrow> d | None \<Rightarrow> []),
                    normalizedData = []\<rparr>" for token opts
    by (simp add: constructor_def a)
  have c: "main gw egw ex1 ex2 eol fuel env =
            map_option Run (startCollection gw egw ex1 ex2 eol fuel
              (\<lparr>organizations = [None], enterprise = None,
                options = \<lparr>repository_opt = env_GITHUB_REPOSITORY env,
                           postToIssue = or_env (input_issue env) (env_ISSUE env),
                           data_opt = None\<rparr>,
                result = [], normalizedData = []\<rparr>, []))"
    if "input_organization env = []" "env_ORGANIZATION env = None"
       "input_enterprise env = []" "env_ENTERPRISE env = None"
    using that by (simp add: main_def or_env_def b)
  have d: "startCollection gw egw ex1 ex2 eol fuel (c, fs) =
            (case collectData gw fuel (c\<lparr>result := obj_set (result c) ''undefined'' None\<rparr>)
                    None None None of
               None \<Rightarrow> None
             | Some (Returned c2) \<Rightarrow>
                 Some (case endCollection ex1 eol (c2, fs) of
                         Threw err s2 \<Rightarrow> endCollection ex2 eol s2
                       | other \<Rightarrow> other)
             | Some (Threw err c2) \<Rightarrow> Some (endCollection ex1 eol (c2, fs))
             | Some (Exited c2) \<Rightarrow> Some (Exited (c2, fs)))"
    if "organizations c = [None]" "enterprise c = None"
    using that
    by (simp add: startCollection_def key_of_def split: option.splits completion.splits)
  show ?thesis using a b c d by blast
qed

theorem constructor_without_selector_witness:
  "input_organization no_inputs = [] \<and> env_ORGANIZATION no_inputs = None
   \<and> input_enterprise no_inputs = [] \<and> env_ENTERPRISE no_inputs = None
   \<and> main (paged_gateway 1 acme_db) (\<lambda>e. Resolved []) all_ok all_ok [CHR 0x0A] 1 no_inputs =
       Some (Run (Exited ((new_collector [None])\<lparr>result := [(''undefined'', None)]\<rparr>,
         [(''./data/raw-data.json'', ''[]''),
          (''./data/raw-data.csv'', CHR 0x22 # csv_header @ [CHR 0x5C, CHR ''n'', CHR 0x22])])))"
proof -
  have h: "input_organization no_inputs = [] \<and> env_ORGANIZATION no_inputs = None
   \<and> input_enterprise no_inputs = [] \<and> env_ENTERPRISE no_inputs = None"
    by (simp add: no_inputs_def)
  have c0: "\<lparr>organizations = [None], enterprise = None,
                options = \<lparr>repository_opt = env_GITHUB_REPOSITORY no_inputs,
                           postToIssue = or_env (input_issue no_inputs) (env_ISSUE no_inputs),
                           data_opt = None\<rparr>,
                result = [], normalizedData = []\<rparr> = new_collector [None]"
    by (simp add: new_collector_def no_inputs_def or_env_def)
  have o: "organizations (new_collector [None]) = [None] \<and> enterprise (new_collector [None]) = None"
    by (simp add: new_collector_def)
  have r: "collectData (paged_gateway 1 acme_db) 1 ((new_collector [None])\<lparr>result := obj_set (result (new_collector [None])) ''undefined'' None\<rparr>)
      None None None = Some (Returned ((new_collector [None])\<lparr>result := [(''undefined'', None)]\<rparr>))"
    by (simp add: run_defs no_such_organization_def)
  from constructor_without_selector [of _ _ no_inputs "paged_gateway 1 acme_db" "\<lambda>e. Resolved []" all_ok all_ok "[CHR 0x0A]" 1
      "new_collector [None]" "[]"] h o
  have m: "main (paged_gateway 1 acme_db) (\<lambda>e. Resolved []) all_ok all_ok [CHR 0x0A] 1 no_inputs =
     map_option Run (case collectData (paged_gateway 1 acme_db) 1 ((new_collector [None])\<lparr>result := obj_set (result (new_collector [None])) ''undefined'' None\<rparr>)
                    None None None of
               None \<Rightarrow> None
             | Some (Returned c2) \<Rightarrow>
                 Some (case endCollection all_ok [CHR 0x0A] (c2, []) of
                         Threw err s2 \<Rightarrow> endCollection all_ok [CHR 0x0A] s2
                       | other \<Rightarrow> other)
             | Some (Threw err c2) \<Rightarrow> Some (endCollection all_ok [CHR 0x0A] (c2, []))
             | Some (Exited c2) \<Rightarrow> Some (Exited (c2, [])))"
    unfolding c0 by metis
  show ?thesis using h m [unfolded r] by (simp add: endCollection_null)
qed

subsection \<open>C10: normalizing twice\<close>

text \<open>
  C10: \<open>normalizeResult\<close> appends to \<open>normalizedData\<close> without clearing it, so that from an
  empty \<open>normalizedData\<close> two invocations give the list of one invocation twice; and when
  the first \<open>endCollection\<close> throws (here at its first write), the handler of
  \<open>startCollection\<close> invokes \<open>endCollection\<close> again, on the state already normalized once.
\<close>

theorem normalizeResult_twice:
  "(normalizedData c = [] \<longrightarrow>
      normalizedData (normalizeResult (normalizeResult c)) =
        normalizedData (normalizeResult c) @ normalizedData (normalizeResult c))
   \<and> (enterprise c = None \<and> collectAll gw fuel c (organizations c) = Some (Returned c2)
        \<and> \<not> json_write_ok ex1
      \<longrightarrow> startCollection gw egw ex1 ex2 eol fuel (c, fs) =
            Some (endCollection ex2 eol (normalizeResult c2, fs)))"
proof -
  have a: "normalizedData (normalizeResult (normalizeResult c)) =
        normalizedData (normalizeResult c) @ normalizedData (normalizeResult c)"
    if "normalizedData c = []"
    using that by (simp add: normalizeResult_eq)
  have b: "startCollection gw egw ex1 ex2 eol fuel (c, fs) =
            Some (endCollection ex2 eol (normalizeResult c2, fs))"
    if "enterprise c = None" "collectAll gw fuel c (organizations c) = Some (Returned c2)"
       "\<not> json_write_ok ex1"
    using that by (simp add: startCollection_def endCollection_def)
  show ?thesis using a b by blast
qed

theorem normalizeResult_twice_witness:
  "normalizedData acme_state = []
   \<and> length (normalizedData (normalizeResult acme_state)) = 4
   \<and> length (normalizedData (normalizeResult (normalizeResult acme_state))) = 8
   \<and> enterprise (new_collector [Some ''acme'']) = None
   \<and> collectAll (paged_gateway 1 acme_db) 3 (new_collector [Some ''acme''])
        (organizations (new_collector [Some ''acme''])) = Some (Returned acme_state)
   \<and> \<not> json_write_ok json_write_fails
   \<and> startCollection (paged_gateway 1 acme_db) (\<lambda>e. Resolved []) json_write_fails all_ok [CHR 0x0A] 3
        (new_collector [Some ''acme''], []) =
       Some (endCollection all_ok [CHR 0x0A] (normalizeResult acme_state, []))
   \<and> length (normalizedData (fst (final_state
         (endCollection all_ok [CHR 0x0A] (normalizeResult acme_state, []))))) = 8"
proof -
  have e: "normalizedData acme_state = []"
    by (simp add: acme_state_def new_collector_def)
  have n: "length (normalizedData (normalizeResult acme_state)) = 4"
    by (simp add: acme_records)
  from normalizeResult_twice [of acme_state] e
  have d: "normalizedData (normalizeResult (normalizeResult acme_state)) =
        normalizedData (normalizeResult acme_state) @ normalizedData (normalizeResult acme_state)"
    by blast
  have o: "organizations (new_collector [Some ''acme'']) = [Some ''acme'']"
    "enterprise (new_collector [Some ''acme'']) = None"
    by (simp_all add: new_collector_def)
  have f: "\<not> json_write_ok json_write_fails"
    by (simp add: json_write_fails_def)
  from normalizeResult_twice [of "new_collector [Some ''acme'']" "paged_gateway 1 acme_db" 3
      acme_state json_write_fails] o f acme_collectAll
  have s: "startCollection (paged_gateway 1 acme_db) (\<lambda>e. Resolved []) json_write_fails all_ok [CHR 0x0A] 3
        (new_collector [Some ''acme''], []) =
       Some (endCollection all_ok [CHR 0x0A] (normalizeResult acme_state, []))"
    by simp
  have g: "normalizedData (fst (final_state (endCollection all_ok [CHR 0x0A] (normalizeResult acme_state, []))))
      = normalizedData (normalizeResult (normalizeResult acme_state))"
    by (simp add: endCollection_def all_ok_def final_state_def Let_def)
  show ?thesis using e n d o f acme_collectAll s g by simp
qed


end
